theory Spec2Isabelle
  imports Main "HOL-Library.Sublist"
begin

section \<open>Python values\<close>

text \<open>
  The server relays JSON documents. A decoded document is a value of \<open>json\<close>; a JSON
  object is an insertion-ordered association list, as a Python dict is. Numbers are
  integers (floating point values are outside the model). Strings are lists of
  characters read as ASCII text: \<open>str.upper\<close> and the escaping rules below are the
  ASCII ones, and characters from 128 on are passed through unchanged.
\<close>

datatype json =
    JNull
  | JBool bool
  | JNum int
  | JStr string
  | JArr "json list"
  | JObj "(string \<times> json) list"

text \<open>Python's truth value of an object (\<open>if token:\<close>, \<open>if not token:\<close>).\<close>

fun truthy :: "json \<Rightarrow> bool" where
  "truthy JNull = False"
| "truthy (JBool b) = b"
| "truthy (JNum n) = (n \<noteq> 0)"
| "truthy (JStr s) = (s \<noteq> [])"
| "truthy (JArr xs) = (xs \<noteq> [])"
| "truthy (JObj kvs) = (kvs \<noteq> [])"

text \<open>Truth value of an \<open>Optional[str]\<close> argument: \<open>None\<close> and \<open>""\<close> are false.\<close>

fun supplied :: "string option \<Rightarrow> bool" where
  "supplied None = False"
| "supplied (Some s) = (s \<noteq> [])"

fun type_name :: "json \<Rightarrow> string" where
  "type_name JNull = ''NoneType''"
| "type_name (JBool b) = ''bool''"
| "type_name (JNum n) = ''int''"
| "type_name (JStr s) = ''str''"
| "type_name (JArr xs) = ''list''"
| "type_name (JObj kvs) = ''dict''"

subsection \<open>Strings\<close>

definition upper_char :: "char \<Rightarrow> char" where
  "upper_char c =
     (if (97::nat) \<le> of_char c \<and> (of_char c :: nat) \<le> 122
      then char_of (of_char c - (32::nat)) else c)"

definition upper :: "string \<Rightarrow> string" where
  "upper s = map upper_char s"

text \<open>\<open>sep.join(xs)\<close>\<close>

fun join :: "string \<Rightarrow> string list \<Rightarrow> string" where
  "join sep [] = []"
| "join sep [x] = x"
| "join sep (x # y # ys) = x @ sep @ join sep (y # ys)"

definition digit_char :: "nat \<Rightarrow> char" where
  "digit_char d = char_of (48 + d)"

function str_nat :: "nat \<Rightarrow> string" where
  "str_nat n = (if n < 10 then [digit_char n] else str_nat (n div 10) @ [digit_char (n mod 10)])"
  by pat_completeness auto
termination
  by (relation "measure id") auto

text \<open>\<open>str(n)\<close> for an integer \<open>n\<close>\<close>

definition str_int :: "int \<Rightarrow> string" where
  "str_int i = (if i < 0 then CHR ''-'' # str_nat (nat (- i)) else str_nat (nat i))"

definition hex_char :: "nat \<Rightarrow> char" where
  "hex_char d = (if d < 10 then char_of (48 + d) else char_of (87 + d))"

definition hex2 :: "char \<Rightarrow> string" where
  "hex2 c = [hex_char (of_char c div 16), hex_char (of_char c mod 16)]"

subsection \<open>\<open>json.dumps\<close>\<close>

text \<open>
  The string escapes of the standard encoder. With \<open>ensure_ascii\<close> (the default, used
  for the \<open>filtering\<close> parameter) every character outside the range from space to
  tilde is escaped; without it (\<open>_fmt\<close>) only the quote, the backslash and the control
  characters are.
\<close>

definition escape_char :: "bool \<Rightarrow> char \<Rightarrow> string" where
  "escape_char ensure_ascii c =
     (if c = CHR 0x22 then [CHR 0x5C, CHR 0x22]
      else if c = CHR 0x5C then [CHR 0x5C, CHR 0x5C]
      else if c = CHR 0x0A then [CHR 0x5C, CHR ''n'']
      else if c = CHR 0x0D then [CHR 0x5C, CHR ''r'']
      else if c = CHR 0x09 then [CHR 0x5C, CHR ''t'']
      else if c = CHR 0x08 then [CHR 0x5C, CHR ''b'']
      else if c = CHR 0x0C then [CHR 0x5C, CHR ''f'']
      else if (of_char c :: nat) < 32 \<or> (ensure_ascii \<and> (of_char c :: nat) > 126)
        then [CHR 0x5C, CHR ''u'', CHR ''0'', CHR ''0''] @ hex2 c
      else [c])"

definition json_string :: "bool \<Rightarrow> string \<Rightarrow> string" where
  "json_string ensure_ascii s = [CHR 0x22] @ concat (map (escape_char ensure_ascii) s) @ [CHR 0x22]"

text \<open>
  The separator written before the items of a container at nesting depth \<open>lvl\<close>:
  nothing without \<open>indent\<close>, a newline and \<open>indent * lvl\<close> spaces with it.
\<close>

fun newline_indent :: "nat option \<Rightarrow> nat \<Rightarrow> string" where
  "newline_indent None lvl = []"
| "newline_indent (Some k) lvl = CHR 0x0A # replicate (k * lvl) CHR '' ''"

fun item_separator :: "nat option \<Rightarrow> nat \<Rightarrow> string" where
  "item_separator None lvl = '', ''"
| "item_separator (Some k) lvl = CHR '','' # newline_indent (Some k) lvl"

fun dumps_at :: "bool \<Rightarrow> nat option \<Rightarrow> nat \<Rightarrow> json \<Rightarrow> string" where
  "dumps_at ea ind lvl JNull = ''null''"
| "dumps_at ea ind lvl (JBool b) = (if b then ''true'' else ''false'')"
| "dumps_at ea ind lvl (JNum n) = str_int n"
| "dumps_at ea ind lvl (JStr s) = json_string ea s"
| "dumps_at ea ind lvl (JArr xs) =
     (if xs = [] then ''[]''
      else ''['' @ newline_indent ind (Suc lvl)
           @ join (item_separator ind (Suc lvl)) (map (dumps_at ea ind (Suc lvl)) xs)
           @ newline_indent ind lvl @ '']'')"
| "dumps_at ea ind lvl (JObj kvs) =
     (if kvs = [] then ''{}''
      else ''{'' @ newline_indent ind (Suc lvl)
           @ join (item_separator ind (Suc lvl))
               (map (\<lambda>(k, v). json_string ea k @ '': '' @ dumps_at ea ind (Suc lvl) v) kvs)
           @ newline_indent ind lvl @ ''}'')"

text \<open>\<open>json.dumps(x)\<close> with the default arguments\<close>

definition json_dumps :: "json \<Rightarrow> string" where
  "json_dumps j = dumps_at True None 0 j"

text \<open>\<open>_fmt(data) = json.dumps(data, indent=2, ensure_ascii=False)\<close>\<close>

definition fmt :: "json \<Rightarrow> string" where
  "fmt data = dumps_at False (Some 2) 0 data"

subsection \<open>\<open>str\<close> of a decoded object\<close>

text \<open>
  \<open>str(x)\<close> of a dict or list is its \<open>repr\<close>: strings in single quotes (double quotes
  when the string holds a single quote and no double quote), backslash escapes for the
  quote, the backslash and the control characters.
\<close>

definition repr_char :: "char \<Rightarrow> char \<Rightarrow> string" where
  "repr_char q c =
     (if c = q \<or> c = CHR 0x5C then [CHR 0x5C, c]
      else if c = CHR 0x09 then [CHR 0x5C, CHR ''t'']
      else if c = CHR 0x0A then [CHR 0x5C, CHR ''n'']
      else if c = CHR 0x0D then [CHR 0x5C, CHR ''r'']
      else if (of_char c :: nat) < 32 \<or> (of_char c :: nat) = 127
        then [CHR 0x5C, CHR ''x''] @ hex2 c
      else [c])"

definition repr_str :: "string \<Rightarrow> string" where
  "repr_str s =
     (let q = (if CHR 0x27 \<in> set s \<and> CHR 0x22 \<notin> set s then CHR 0x22 else CHR 0x27)
      in [q] @ concat (map (repr_char q) s) @ [q])"

fun py_repr :: "json \<Rightarrow> string" where
  "py_repr JNull = ''None''"
| "py_repr (JBool b) = (if b then ''True'' else ''False'')"
| "py_repr (JNum n) = str_int n"
| "py_repr (JStr s) = repr_str s"
| "py_repr (JArr xs) = ''['' @ join '', '' (map py_repr xs) @ '']''"
| "py_repr (JObj kvs) =
     ''{'' @ join '', '' (map (\<lambda>(k, v). repr_str k @ '': '' @ py_repr v) kvs) @ ''}''"

fun py_str :: "json \<Rightarrow> string" where
  "py_str (JStr s) = s"
| "py_str j = py_repr j"

section \<open>Exceptions\<close>

text \<open>
  A raised exception is a value: its class and the text \<open>str(e)\<close> gives. A function of
  the source that can raise returns \<open>exn + 'a\<close>, with \<open>Inl\<close> for the exception.
  \<open>TransportError\<close> stands for the failures of the HTTP client before a response
  exists (connection refused, timeout, invalid URL).
\<close>

datatype exn_class =
    ValueError
  | JSONDecodeError
  | AttributeError
  | TypeError
  | KeyError
  | TransportError
  | HTTPStatusError

datatype exn = Exn exn_class string

fun exn_str :: "exn \<Rightarrow> string" where
  "exn_str (Exn c msg) = msg"

section \<open>Dictionaries built by the server\<close>

text \<open>
  The parameter and payload dicts of a request. Their keys are strings wherever the
  server writes them itself; the generic operation merges a caller's decoded JSON into
  the dict with \<open>dict.update\<close>, which also accepts a list of pairs, so a key is any
  hashable decoded value. \<open>True\<close> and \<open>1\<close> (\<open>False\<close> and \<open>0\<close>) are the same key.
\<close>

type_synonym pydict = "(json \<times> json) list"

fun key_eq :: "json \<Rightarrow> json \<Rightarrow> bool" where
  "key_eq (JBool b) (JNum n) = (n = (if b then 1 else 0))"
| "key_eq (JNum n) (JBool b) = (n = (if b then 1 else 0))"
| "key_eq a b = (a = b)"

text \<open>\<open>d[k] = v\<close>: an existing key keeps its place, a new key goes to the end.\<close>

fun dict_set :: "pydict \<Rightarrow> json \<Rightarrow> json \<Rightarrow> pydict" where
  "dict_set [] k v = [(k, v)]"
| "dict_set ((k', v') # d) k v =
     (if key_eq k' k then (k', v) # d else (k', v') # dict_set d k v)"

text \<open>The value stored under \<open>k\<close>, if any.\<close>

fun dict_get :: "pydict \<Rightarrow> json \<Rightarrow> json option" where
  "dict_get [] k = None"
| "dict_get ((k', v') # d) k = (if key_eq k' k then Some v' else dict_get d k)"

text \<open>The dict a decoded JSON object is.\<close>

definition dict_of_obj :: "(string \<times> json) list \<Rightarrow> pydict" where
  "dict_of_obj kvs = map (\<lambda>(k, v). (JStr k, v)) kvs"

text \<open>\<open>d.update(other)\<close> for a dict \<open>other\<close>\<close>

definition dict_merge :: "pydict \<Rightarrow> pydict \<Rightarrow> pydict" where
  "dict_merge d other = fold (\<lambda>(k, v) acc. dict_set acc k v) other d"

text \<open>
  \<open>d.update(x)\<close> for a decoded JSON value \<open>x\<close>. An object is merged key by key. Any other
  iterable is read as a sequence of two-element sequences (lists, two-character strings,
  objects with two keys); an element of another length raises ValueError, an element
  that is no sequence or an unhashable key raises TypeError.
\<close>

fun as_sequence :: "json \<Rightarrow> json list option" where
  "as_sequence (JArr xs) = Some xs"
| "as_sequence (JStr s) = Some (map (\<lambda>c. JStr [c]) s)"
| "as_sequence (JObj kvs) = Some (map (\<lambda>(k, v). JStr k) kvs)"
| "as_sequence j = None"

fun hashable :: "json \<Rightarrow> bool" where
  "hashable (JArr xs) = False"
| "hashable (JObj kvs) = False"
| "hashable j = True"

fun update_pairs :: "pydict \<Rightarrow> nat \<Rightarrow> json list \<Rightarrow> exn + pydict" where
  "update_pairs d i [] = Inr d"
| "update_pairs d i (e # es) =
     (case as_sequence e of
        None \<Rightarrow> Inl (Exn TypeError
          (''cannot convert dictionary update sequence element #'' @ str_nat i
           @ '' to a sequence''))
      | Some [k, v] \<Rightarrow>
          if hashable k then update_pairs (dict_set d k v) (Suc i) es
          else Inl (Exn TypeError (''unhashable type: '' @ [CHR 0x27] @ type_name k @ [CHR 0x27]))
      | Some xs \<Rightarrow> Inl (Exn ValueError
          (''dictionary update sequence element #'' @ str_nat i @ '' has length ''
           @ str_nat (length xs) @ ''; 2 is required'')))"

fun dict_update :: "pydict \<Rightarrow> json \<Rightarrow> exn + pydict" where
  "dict_update d (JObj kvs) = Inr (dict_merge d (dict_of_obj kvs))"
| "dict_update d (JArr xs) = update_pairs d 0 xs"
| "dict_update d (JStr s) = update_pairs d 0 (map (\<lambda>c. JStr [c]) s)"
| "dict_update d j =
     Inl (Exn TypeError ([CHR 0x27] @ type_name j @ [CHR 0x27] @ '' object is not iterable''))"

section \<open>Operations on decoded response bodies\<close>

text \<open>
  \<open>data.get(key, default)\<close> and \<open>data.get(key)\<close>: only a dict has the method; a missing
  key gives the default, which is \<open>None\<close> when none is passed.
\<close>

fun py_get_default :: "json \<Rightarrow> string \<Rightarrow> json \<Rightarrow> exn + json" where
  "py_get_default (JObj kvs) k dflt = Inr (case map_of kvs k of None \<Rightarrow> dflt | Some v \<Rightarrow> v)"
| "py_get_default j k dflt =
     Inl (Exn AttributeError
       ([CHR 0x27] @ type_name j @ [CHR 0x27] @ '' object has no attribute '' @ [CHR 0x27]
        @ ''get'' @ [CHR 0x27]))"

definition py_get :: "json \<Rightarrow> string \<Rightarrow> exn + json" where
  "py_get j k = py_get_default j k JNull"

text \<open>
  \<open>key in data\<close>: a key of a dict, an element of a list, a substring of a string; any
  other value is not a container and the test raises TypeError.
\<close>

fun py_in :: "string \<Rightarrow> json \<Rightarrow> exn + bool" where
  "py_in k (JObj kvs) = Inr (k \<in> set (map fst kvs))"
| "py_in k (JArr xs) = Inr (JStr k \<in> set xs)"
| "py_in k (JStr s) = Inr (sublist k s)"
| "py_in k j =
     Inl (Exn TypeError
       (''argument of type '' @ [CHR 0x27] @ type_name j @ [CHR 0x27] @ '' is not iterable''))"

text \<open>\<open>data[key]\<close> for a string key\<close>

fun py_item :: "json \<Rightarrow> string \<Rightarrow> exn + json" where
  "py_item (JObj kvs) k =
     (case map_of kvs k of None \<Rightarrow> Inl (Exn KeyError (repr_str k)) | Some v \<Rightarrow> Inr v)"
| "py_item (JArr xs) k = Inl (Exn TypeError ''list indices must be integers or slices, not str'')"
| "py_item (JStr s) k =
     Inl (Exn TypeError (''string indices must be integers, not '' @ [CHR 0x27] @ ''str'' @ [CHR 0x27]))"
| "py_item j k =
     Inl (Exn TypeError ([CHR 0x27] @ type_name j @ [CHR 0x27] @ '' object is not subscriptable''))"

text \<open>
  The response normalisation, written out three times in the source (in \<open>_graph_get\<close>,
  \<open>_graph_post\<close> and \<open>_graph_delete\<close>):
  \<^verbatim>\<open>
  if "error" in data:
      return {"error": data["error"].get("message", str(data["error"]))}
  return data
  \<close>
\<close>

definition error_or_data :: "json \<Rightarrow> exn + json" where
  "error_or_data data =
     (case py_in ''error'' data of
        Inl e \<Rightarrow> Inl e
      | Inr False \<Rightarrow> Inr data
      | Inr True \<Rightarrow>
          (case py_item data ''error'' of
             Inl e \<Rightarrow> Inl e
           | Inr err \<Rightarrow>
               (case py_get_default err ''message'' (JStr (py_str err)) of
                  Inl e \<Rightarrow> Inl e
                | Inr m \<Rightarrow> Inr (JObj [(''error'', m)]))))"

section \<open>The world outside the server\<close>

text \<open>
  An HTTP request as the client library receives it: the URL and either the query
  parameters (\<open>params=\<close>, for GET and DELETE) or the form fields (\<open>data=\<close>, for POST).
\<close>

datatype request =
    Get string pydict
  | Post string pydict
  | Delete string pydict

text \<open>
  A response: its status code, the text of the error \<open>raise_for_status()\<close> raises for it
  and its body. A call of the client either fails before there is a response or gives one.
\<close>

record response =
  status_code :: nat
  status_error :: string
  body_text :: string

datatype http_outcome = Failure string | Reply response

text \<open>
  Everything the source reads but does not define: the process environment
  (\<open>os.environ\<close>), the decoder \<open>json.loads\<close> (\<open>Inl msg\<close> is a JSONDecodeError with that
  text) and the remote service, whose answer may depend on the requests made so far.
\<close>

record world =
  environ :: "string \<Rightarrow> string option"
  json_loads :: "string \<Rightarrow> string + json"
  http :: "request list \<Rightarrow> request \<Rightarrow> http_outcome"

text \<open>
  A computation that may call the network takes the log of the requests issued so far
  and returns the extended log with its result or the exception it raised.
\<close>

type_synonym 'a io = "request list \<Rightarrow> (exn + 'a) \<times> request list"

definition io_return :: "'a \<Rightarrow> 'a io" where
  "io_return x = (\<lambda>log. (Inr x, log))"

definition io_raise :: "exn \<Rightarrow> 'a io" where
  "io_raise e = (\<lambda>log. (Inl e, log))"

definition io_lift :: "exn + 'a \<Rightarrow> 'a io" where
  "io_lift r = (\<lambda>log. (r, log))"

definition io_bind :: "'a io \<Rightarrow> ('a \<Rightarrow> 'b io) \<Rightarrow> 'b io" where
  "io_bind m f = (\<lambda>log. case m log of (Inl e, log') \<Rightarrow> (Inl e, log') | (Inr x, log') \<Rightarrow> f x log')"

text \<open>\<open>try: m except Exception as e: h(e)\<close>\<close>

definition io_catch :: "'a io \<Rightarrow> (exn \<Rightarrow> 'a io) \<Rightarrow> 'a io" where
  "io_catch m h = (\<lambda>log. case m log of (Inl e, log') \<Rightarrow> h e log' | (Inr x, log') \<Rightarrow> (Inr x, log'))"

text \<open>One call of the HTTP client: the request is logged whether or not it gets a response.\<close>

definition send :: "world \<Rightarrow> request \<Rightarrow> response io" where
  "send w req =
     (\<lambda>log. (case http w log req of
                Failure msg \<Rightarrow> Inl (Exn TransportError msg)
              | Reply r \<Rightarrow> Inr r,
             log @ [req]))"

text \<open>\<open>resp.raise_for_status()\<close>: every status outside 2xx raises.\<close>

definition raise_for_status :: "response \<Rightarrow> exn + unit" where
  "raise_for_status r =
     (if 200 \<le> status_code r \<and> status_code r < 300 then Inr ()
      else Inl (Exn HTTPStatusError (status_error r)))"

text \<open>\<open>resp.json()\<close>\<close>

definition response_json :: "world \<Rightarrow> response \<Rightarrow> exn + json" where
  "response_json w r =
     (case json_loads w (body_text r) of
        Inl msg \<Rightarrow> Inl (Exn JSONDecodeError msg)
      | Inr data \<Rightarrow> Inr data)"

text \<open>\<open>os.environ.get(name, default)\<close>\<close>

definition environ_get :: "world \<Rightarrow> string \<Rightarrow> string \<Rightarrow> string" where
  "environ_get w name dflt = (case environ w name of None \<Rightarrow> dflt | Some v \<Rightarrow> v)"

section \<open>Token management\<close>

definition GRAPH_API_BASE :: string where
  "GRAPH_API_BASE = ''https://graph.facebook.com/v22.0''"

definition user_token :: "world \<Rightarrow> exn + string" where
  "user_token w =
     (let token = environ_get w ''META_SYSTEM_USER_TOKEN'' []
      in if token = [] then Inl (Exn ValueError ''META_SYSTEM_USER_TOKEN env var is not set'')
         else Inr token)"

text \<open>A blob that does not decode gives the empty map (the source logs and goes on).\<close>

definition page_tokens :: "world \<Rightarrow> json" where
  "page_tokens w =
     (let raw = environ_get w ''META_PAGE_TOKENS'' ''{}''
      in case json_loads w raw of Inl msg \<Rightarrow> JObj [] | Inr j \<Rightarrow> j)"

text \<open>
  The body of the \<open>try\<close> of \<open>_exchange_page_token\<close>. The user token is read while the
  arguments of the request are built, so a missing token raises before any request.
\<close>

definition exchange_attempt :: "world \<Rightarrow> string \<Rightarrow> json io" where
  "exchange_attempt w page_id =
     io_bind (io_lift (user_token w)) (\<lambda>ut.
     io_bind (send w (Get (GRAPH_API_BASE @ ''/'' @ page_id)
                [(JStr ''fields'', JStr ''access_token''), (JStr ''access_token'', JStr ut)])) (\<lambda>resp.
     io_bind (io_lift (raise_for_status resp)) (\<lambda>u.
     io_bind (io_lift (response_json w resp)) (\<lambda>data.
     io_bind (io_lift (py_get data ''access_token'')) (\<lambda>token.
       if truthy token then io_return token
       else io_raise (Exn ValueError (''No access_token returned for page '' @ page_id)))))))"

definition exchange_page_token :: "world \<Rightarrow> string \<Rightarrow> json io" where
  "exchange_page_token w page_id =
     io_catch (exchange_attempt w page_id)
       (\<lambda>e. io_raise (Exn ValueError
          (''Could not get page token for '' @ page_id @ '': '' @ exn_str e)))"

definition page_token :: "world \<Rightarrow> string \<Rightarrow> json io" where
  "page_token w page_id =
     (case py_get (page_tokens w) page_id of
        Inl e \<Rightarrow> io_raise e
      | Inr token \<Rightarrow>
          if \<not> truthy token then exchange_page_token w page_id else io_return token)"

definition app_token :: "world \<Rightarrow> exn + string" where
  "app_token w =
     (let app_id = environ_get w ''META_APP_ID'' [];
          app_secret = environ_get w ''META_APP_SECRET'' []
      in if app_id \<noteq> [] \<and> app_secret \<noteq> [] then Inr (app_id @ ''|'' @ app_secret)
         else Inl (Exn ValueError ''META_APP_ID and META_APP_SECRET env vars are not set''))"

section \<open>HTTP helpers\<close>

definition graph_get :: "world \<Rightarrow> string \<Rightarrow> pydict \<Rightarrow> json \<Rightarrow> json io" where
  "graph_get w endpoint params token =
     io_bind (send w (Get (GRAPH_API_BASE @ ''/'' @ endpoint)
                (dict_set params (JStr ''access_token'') token))) (\<lambda>resp.
     io_bind (io_lift (response_json w resp)) (\<lambda>data.
     io_lift (error_or_data data)))"

definition graph_post :: "world \<Rightarrow> string \<Rightarrow> pydict \<Rightarrow> json \<Rightarrow> json io" where
  "graph_post w endpoint payload token =
     io_bind (send w (Post (GRAPH_API_BASE @ ''/'' @ endpoint)
                (dict_set payload (JStr ''access_token'') token))) (\<lambda>resp.
     io_bind (io_lift (response_json w resp)) (\<lambda>data.
     io_lift (error_or_data data)))"

definition graph_delete :: "world \<Rightarrow> string \<Rightarrow> json \<Rightarrow> json io" where
  "graph_delete w endpoint token =
     io_bind (send w (Delete (GRAPH_API_BASE @ ''/'' @ endpoint)
                [(JStr ''access_token'', token)])) (\<lambda>resp.
     io_bind (io_lift (response_json w resp)) (\<lambda>data.
     io_lift (error_or_data data)))"

section \<open>The exposed operations\<close>

text \<open>
  Each operation builds its parameters, resolves its token (the last argument of the
  call, so after the parameters) and formats what the helper returns. No operation
  has a handler around these steps: an exception of any of them leaves the operation.
\<close>

subsection \<open>Pages: list and info\<close>

definition meta_list_pages :: "world \<Rightarrow> string io" where
  "meta_list_pages w =
     io_bind (io_lift (user_token w)) (\<lambda>token.
     io_bind (graph_get w ''me/accounts''
                [(JStr ''fields'', JStr ''id,name,category,fan_count,username''),
                 (JStr ''limit'', JStr ''100'')]
                (JStr token)) (\<lambda>data.
     io_return (fmt data)))"

definition meta_get_page_info :: "world \<Rightarrow> string \<Rightarrow> string io" where
  "meta_get_page_info w page_id =
     (let fields = ''id,name,username,category,fan_count,followers_count,about,description,website,phone,emails,location,hours,verification_status,picture{url}''
      in io_bind (page_token w page_id) (\<lambda>token.
         io_bind (graph_get w page_id [(JStr ''fields'', JStr fields)] token) (\<lambda>data.
         io_return (fmt data))))"

subsection \<open>Page posts\<close>

definition meta_get_page_posts :: "world \<Rightarrow> string \<Rightarrow> int \<Rightarrow> string io" where
  "meta_get_page_posts w page_id limit =
     (let fields = ''id,message,created_time,type,permalink_url,shares,likes.summary(true).limit(0),comments.summary(true).limit(0),attachments{media_type,url,media}''
      in io_bind (page_token w page_id) (\<lambda>token.
         io_bind (graph_get w (page_id @ ''/feed'')
                    [(JStr ''fields'', JStr fields),
                     (JStr ''limit'', JStr (str_int (min (max limit 1) 100)))]
                    token) (\<lambda>data.
         io_return (fmt data))))"

definition meta_create_page_post ::
  "world \<Rightarrow> string \<Rightarrow> string \<Rightarrow> string option \<Rightarrow> string io" where
  "meta_create_page_post w page_id message link =
     (let payload0 = [(JStr ''message'', JStr message)];
          payload =
            (case link of
               None \<Rightarrow> payload0
             | Some l \<Rightarrow> if l \<noteq> [] then dict_set payload0 (JStr ''link'') (JStr l) else payload0)
      in io_bind (page_token w page_id) (\<lambda>token.
         io_bind (graph_post w (page_id @ ''/feed'') payload token) (\<lambda>data.
         io_return (fmt data))))"

definition meta_delete_page_post :: "world \<Rightarrow> string \<Rightarrow> string \<Rightarrow> string io" where
  "meta_delete_page_post w post_id page_id =
     io_bind (page_token w page_id) (\<lambda>token.
     io_bind (graph_delete w post_id token) (\<lambda>data.
     io_return (fmt data)))"

subsection \<open>Comments\<close>

definition meta_get_post_comments :: "world \<Rightarrow> string \<Rightarrow> string \<Rightarrow> int \<Rightarrow> string io" where
  "meta_get_post_comments w post_id page_id limit =
     (let fields = ''id,message,from{id,name},created_time,like_count,comment_count,attachment{media_type,url,media}''
      in io_bind (page_token w page_id) (\<lambda>token.
         io_bind (graph_get w (post_id @ ''/comments'')
                    [(JStr ''fields'', JStr fields),
                     (JStr ''limit'', JStr (str_int (min (max limit 1) 100)))]
                    token) (\<lambda>data.
         io_return (fmt data))))"

definition meta_reply_to_comment :: "world \<Rightarrow> string \<Rightarrow> string \<Rightarrow> string \<Rightarrow> string io" where
  "meta_reply_to_comment w comment_id page_id message =
     io_bind (page_token w page_id) (\<lambda>token.
     io_bind (graph_post w (comment_id @ ''/comments'') [(JStr ''message'', JStr message)] token)
       (\<lambda>data.
     io_return (fmt data)))"

definition meta_delete_comment :: "world \<Rightarrow> string \<Rightarrow> string \<Rightarrow> string io" where
  "meta_delete_comment w comment_id page_id =
     io_bind (page_token w page_id) (\<lambda>token.
     io_bind (graph_delete w comment_id token) (\<lambda>data.
     io_return (fmt data)))"

definition meta_like_comment :: "world \<Rightarrow> string \<Rightarrow> string \<Rightarrow> string io" where
  "meta_like_comment w comment_id page_id =
     io_bind (page_token w page_id) (\<lambda>token.
     io_bind (graph_post w (comment_id @ ''/likes'') [] token) (\<lambda>data.
     io_return (fmt data)))"

text \<open>
  The two operations that hide a comment call the HTTP client themselves and return
  the decoded body as it is.
\<close>

definition meta_hide_comment :: "world \<Rightarrow> string \<Rightarrow> string \<Rightarrow> bool \<Rightarrow> string io" where
  "meta_hide_comment w comment_id page_id is_hidden =
     io_bind (page_token w page_id) (\<lambda>token.
     io_bind (send w (Post (GRAPH_API_BASE @ ''/'' @ comment_id)
                [(JStr ''is_hidden'', JStr (if is_hidden then ''true'' else ''false'')),
                 (JStr ''access_token'', token)])) (\<lambda>resp.
     io_bind (io_lift (response_json w resp)) (\<lambda>data.
     io_return (fmt data))))"

subsection \<open>Ad comments\<close>

definition meta_get_ad_accounts :: "world \<Rightarrow> string io" where
  "meta_get_ad_accounts w =
     io_bind (io_lift (user_token w)) (\<lambda>token.
     io_bind (graph_get w ''me/adaccounts''
                [(JStr ''fields'', JStr ''id,name,account_id,account_status,currency,timezone_name''),
                 (JStr ''limit'', JStr ''100'')]
                (JStr token)) (\<lambda>data.
     io_return (fmt data)))"

definition meta_get_ad_campaigns :: "world \<Rightarrow> string \<Rightarrow> string \<Rightarrow> int \<Rightarrow> string io" where
  "meta_get_ad_campaigns w ad_account_id status_filter limit =
     (let params0 =
            [(JStr ''fields'', JStr ''id,name,objective,status,effective_status,daily_budget,lifetime_budget,created_time''),
             (JStr ''limit'', JStr (str_int (min (max limit 1) 100)))];
          params =
            (if upper status_filter \<noteq> ''ALL''
             then dict_set params0 (JStr ''filtering'')
                    (JStr (json_dumps (JArr
                       [JObj [(''field'', JStr ''effective_status''), (''operator'', JStr ''IN''),
                              (''value'', JArr [JStr (upper status_filter)])]])))
             else params0)
      in io_bind (io_lift (user_token w)) (\<lambda>token.
         io_bind (graph_get w (ad_account_id @ ''/campaigns'') params (JStr token)) (\<lambda>data.
         io_return (fmt data))))"

definition meta_get_ad_adsets ::
  "world \<Rightarrow> string \<Rightarrow> string option \<Rightarrow> string \<Rightarrow> int \<Rightarrow> string io" where
  "meta_get_ad_adsets w ad_account_id campaign_id status_filter limit =
     (let params0 =
            [(JStr ''fields'', JStr ''id,name,campaign_id,status,effective_status,daily_budget,lifetime_budget,targeting,optimization_goal''),
             (JStr ''limit'', JStr (str_int (min (max limit 1) 100)))];
          filtering0 = [];
          filtering1 =
            (if upper status_filter \<noteq> ''ALL''
             then filtering0 @
                    [JObj [(''field'', JStr ''effective_status''), (''operator'', JStr ''IN''),
                           (''value'', JArr [JStr (upper status_filter)])]]
             else filtering0);
          filtering2 =
            (case campaign_id of
               None \<Rightarrow> filtering1
             | Some c \<Rightarrow>
                 if c \<noteq> []
                 then filtering1 @
                        [JObj [(''field'', JStr ''campaign.id''), (''operator'', JStr ''EQUAL''),
                               (''value'', JStr c)]]
                 else filtering1);
          params =
            (if filtering2 \<noteq> []
             then dict_set params0 (JStr ''filtering'') (JStr (json_dumps (JArr filtering2)))
             else params0)
      in io_bind (io_lift (user_token w)) (\<lambda>token.
         io_bind (graph_get w (ad_account_id @ ''/adsets'') params (JStr token)) (\<lambda>data.
         io_return (fmt data))))"

definition meta_get_ads ::
  "world \<Rightarrow> string \<Rightarrow> string option \<Rightarrow> string option \<Rightarrow> string \<Rightarrow> int \<Rightarrow> string io" where
  "meta_get_ads w ad_account_id campaign_id adset_id status_filter limit =
     (let params0 =
            [(JStr ''fields'', JStr ''id,name,status,effective_status,campaign_id,adset_id,creative{id,effective_object_story_id}''),
             (JStr ''limit'', JStr (str_int (min (max limit 1) 100)))];
          filtering0 = [];
          filtering1 =
            (if upper status_filter \<noteq> ''ALL''
             then filtering0 @
                    [JObj [(''field'', JStr ''effective_status''), (''operator'', JStr ''IN''),
                           (''value'', JArr [JStr (upper status_filter)])]]
             else filtering0);
          filtering2 =
            (case campaign_id of
               None \<Rightarrow> filtering1
             | Some c \<Rightarrow>
                 if c \<noteq> []
                 then filtering1 @
                        [JObj [(''field'', JStr ''campaign.id''), (''operator'', JStr ''EQUAL''),
                               (''value'', JStr c)]]
                 else filtering1);
          filtering3 =
            (case adset_id of
               None \<Rightarrow> filtering2
             | Some a \<Rightarrow>
                 if a \<noteq> []
                 then filtering2 @
                        [JObj [(''field'', JStr ''adset.id''), (''operator'', JStr ''EQUAL''),
                               (''value'', JStr a)]]
                 else filtering2);
          params =
            (if filtering3 \<noteq> []
             then dict_set params0 (JStr ''filtering'') (JStr (json_dumps (JArr filtering3)))
             else params0)
      in io_bind (io_lift (user_token w)) (\<lambda>token.
         io_bind (graph_get w (ad_account_id @ ''/ads'') params (JStr token)) (\<lambda>data.
         io_return (fmt data))))"

definition meta_get_ad_creative :: "world \<Rightarrow> string \<Rightarrow> string io" where
  "meta_get_ad_creative w ad_id =
     io_bind (io_lift (user_token w)) (\<lambda>token.
     io_bind (graph_get w ad_id
                [(JStr ''fields'', JStr ''id,name,creative{id,effective_object_story_id,object_story_spec,thumbnail_url,title,body}'')]
                (JStr token)) (\<lambda>data.
     io_return (fmt data)))"

definition meta_get_ad_comments ::
  "world \<Rightarrow> string \<Rightarrow> string \<Rightarrow> int \<Rightarrow> string \<Rightarrow> string io" where
  "meta_get_ad_comments w effective_object_story_id page_id limit filter_type =
     (let fields = ''id,message,from{id,name},created_time,like_count,comment_count,is_hidden,attachment{media_type,url,media}'';
          params = [(JStr ''fields'', JStr fields),
                    (JStr ''limit'', JStr (str_int (min (max limit 1) 100))),
                    (JStr ''filter'', JStr filter_type)]
      in io_bind (page_token w page_id) (\<lambda>token.
         io_bind (graph_get w (effective_object_story_id @ ''/comments'') params token) (\<lambda>data.
         io_return (fmt data))))"

definition meta_reply_to_ad_comment :: "world \<Rightarrow> string \<Rightarrow> string \<Rightarrow> string \<Rightarrow> string io" where
  "meta_reply_to_ad_comment w comment_id page_id message =
     io_bind (page_token w page_id) (\<lambda>token.
     io_bind (graph_post w (comment_id @ ''/comments'') [(JStr ''message'', JStr message)] token)
       (\<lambda>data.
     io_return (fmt data)))"

definition meta_hide_ad_comment :: "world \<Rightarrow> string \<Rightarrow> string \<Rightarrow> bool \<Rightarrow> string io" where
  "meta_hide_ad_comment w comment_id page_id is_hidden =
     io_bind (page_token w page_id) (\<lambda>token.
     io_bind (send w (Post (GRAPH_API_BASE @ ''/'' @ comment_id)
                [(JStr ''is_hidden'', JStr (if is_hidden then ''true'' else ''false'')),
                 (JStr ''access_token'', token)])) (\<lambda>resp.
     io_bind (io_lift (response_json w resp)) (\<lambda>data.
     io_return (fmt data))))"

definition meta_delete_ad_comment :: "world \<Rightarrow> string \<Rightarrow> string \<Rightarrow> string io" where
  "meta_delete_ad_comment w comment_id page_id =
     io_bind (page_token w page_id) (\<lambda>token.
     io_bind (graph_delete w comment_id token) (\<lambda>data.
     io_return (fmt data)))"

subsection \<open>Instagram\<close>

definition meta_get_ig_accounts :: "world \<Rightarrow> string \<Rightarrow> string io" where
  "meta_get_ig_accounts w page_id =
     io_bind (page_token w page_id) (\<lambda>token.
     io_bind (graph_get w page_id
                [(JStr ''fields'', JStr ''instagram_business_account{id,name,username,profile_picture_url,followers_count,media_count}'')]
                token) (\<lambda>data.
     io_return (fmt data)))"

definition meta_get_ig_media :: "world \<Rightarrow> string \<Rightarrow> string \<Rightarrow> int \<Rightarrow> string io" where
  "meta_get_ig_media w ig_account_id page_id limit =
     (let fields = ''id,caption,media_type,media_url,permalink,timestamp,like_count,comments_count,thumbnail_url''
      in io_bind (page_token w page_id) (\<lambda>token.
         io_bind (graph_get w (ig_account_id @ ''/media'')
                    [(JStr ''fields'', JStr fields),
                     (JStr ''limit'', JStr (str_int (min (max limit 1) 50)))]
                    token) (\<lambda>data.
         io_return (fmt data))))"

definition meta_get_ig_comments :: "world \<Rightarrow> string \<Rightarrow> string \<Rightarrow> int \<Rightarrow> string io" where
  "meta_get_ig_comments w media_id page_id limit =
     (let fields = ''id,text,username,timestamp,like_count,replies{id,text,username,timestamp}''
      in io_bind (page_token w page_id) (\<lambda>token.
         io_bind (graph_get w (media_id @ ''/comments'')
                    [(JStr ''fields'', JStr fields),
                     (JStr ''limit'', JStr (str_int (min (max limit 1) 100)))]
                    token) (\<lambda>data.
         io_return (fmt data))))"

definition meta_reply_ig_comment :: "world \<Rightarrow> string \<Rightarrow> string \<Rightarrow> string \<Rightarrow> string io" where
  "meta_reply_ig_comment w comment_id page_id message =
     io_bind (page_token w page_id) (\<lambda>token.
     io_bind (graph_post w (comment_id @ ''/replies'') [(JStr ''message'', JStr message)] token)
       (\<lambda>data.
     io_return (fmt data)))"

definition meta_delete_ig_comment :: "world \<Rightarrow> string \<Rightarrow> string \<Rightarrow> string io" where
  "meta_delete_ig_comment w comment_id page_id =
     io_bind (page_token w page_id) (\<lambda>token.
     io_bind (graph_delete w comment_id token) (\<lambda>data.
     io_return (fmt data)))"

subsection \<open>Messaging\<close>

definition meta_get_conversations :: "world \<Rightarrow> string \<Rightarrow> int \<Rightarrow> string io" where
  "meta_get_conversations w page_id limit =
     (let fields = ''id,snippet,updated_time,message_count,participants,messages.limit(3){id,message,from,created_time}''
      in io_bind (page_token w page_id) (\<lambda>token.
         io_bind (graph_get w (page_id @ ''/conversations'')
                    [(JStr ''fields'', JStr fields),
                     (JStr ''limit'', JStr (str_int (min (max limit 1) 50)))]
                    token) (\<lambda>data.
         io_return (fmt data))))"

definition meta_get_conversation_messages ::
  "world \<Rightarrow> string \<Rightarrow> string \<Rightarrow> int \<Rightarrow> string io" where
  "meta_get_conversation_messages w conversation_id page_id limit =
     (let fields = ''id,message,from,to,created_time,attachments{mime_type,name,size,url}''
      in io_bind (page_token w page_id) (\<lambda>token.
         io_bind (graph_get w (conversation_id @ ''/messages'')
                    [(JStr ''fields'', JStr fields),
                     (JStr ''limit'', JStr (str_int (min (max limit 1) 100)))]
                    token) (\<lambda>data.
         io_return (fmt data))))"

definition meta_send_message :: "world \<Rightarrow> string \<Rightarrow> string \<Rightarrow> string \<Rightarrow> string io" where
  "meta_send_message w page_id recipient_id message =
     (let payload =
            [(JStr ''recipient'', JStr (json_dumps (JObj [(''id'', JStr recipient_id)]))),
             (JStr ''message'', JStr (json_dumps (JObj [(''text'', JStr message)]))),
             (JStr ''messaging_type'', JStr ''RESPONSE'')]
      in io_bind (page_token w page_id) (\<lambda>token.
         io_bind (graph_post w (page_id @ ''/messages'') payload token) (\<lambda>data.
         io_return (fmt data))))"

subsection \<open>Leads\<close>

definition meta_get_lead_forms :: "world \<Rightarrow> string \<Rightarrow> string io" where
  "meta_get_lead_forms w page_id =
     (let fields = ''id,name,status,created_time,leads_count,locale,questions{key,label,type}''
      in io_bind (page_token w page_id) (\<lambda>token.
         io_bind (graph_get w (page_id @ ''/leadgen_forms'')
                    [(JStr ''fields'', JStr fields), (JStr ''limit'', JStr ''50'')]
                    token) (\<lambda>data.
         io_return (fmt data))))"

definition meta_get_lead_data :: "world \<Rightarrow> string \<Rightarrow> string \<Rightarrow> int \<Rightarrow> string io" where
  "meta_get_lead_data w form_id page_id limit =
     (let fields = ''id,created_time,field_data,ad_id,ad_name,campaign_id,campaign_name''
      in io_bind (page_token w page_id) (\<lambda>token.
         io_bind (graph_get w (form_id @ ''/leads'')
                    [(JStr ''fields'', JStr fields),
                     (JStr ''limit'', JStr (str_int (min (max limit 1) 100)))]
                    token) (\<lambda>data.
         io_return (fmt data))))"

subsection \<open>Page insights\<close>

definition meta_get_page_insights ::
  "world \<Rightarrow> string \<Rightarrow> string \<Rightarrow> string \<Rightarrow> string option \<Rightarrow> string option \<Rightarrow> string io" where
  "meta_get_page_insights w page_id metrics period since until =
     (let params0 = [(JStr ''metric'', JStr metrics), (JStr ''period'', JStr period)];
          params1 =
            (case since of
               None \<Rightarrow> params0
             | Some s \<Rightarrow> if s \<noteq> [] then dict_set params0 (JStr ''since'') (JStr s) else params0);
          params =
            (case until of
               None \<Rightarrow> params1
             | Some u \<Rightarrow> if u \<noteq> [] then dict_set params1 (JStr ''until'') (JStr u) else params1)
      in io_bind (page_token w page_id) (\<lambda>token.
         io_bind (graph_get w (page_id @ ''/insights'') params token) (\<lambda>data.
         io_return (fmt data))))"

definition meta_get_post_insights :: "world \<Rightarrow> string \<Rightarrow> string \<Rightarrow> string io" where
  "meta_get_post_insights w post_id page_id =
     (let metrics = ''post_impressions,post_impressions_unique,post_engaged_users,post_clicks,post_reactions_by_type_total''
      in io_bind (page_token w page_id) (\<lambda>token.
         io_bind (graph_get w (post_id @ ''/insights'') [(JStr ''metric'', JStr metrics)] token)
           (\<lambda>data.
         io_return (fmt data))))"

subsection \<open>Webhooks\<close>

definition meta_get_page_subscriptions :: "world \<Rightarrow> string \<Rightarrow> string io" where
  "meta_get_page_subscriptions w page_id =
     io_bind (page_token w page_id) (\<lambda>token.
     io_bind (graph_get w (page_id @ ''/subscribed_apps'') [] token) (\<lambda>data.
     io_return (fmt data)))"

definition meta_subscribe_page_webhooks :: "world \<Rightarrow> string \<Rightarrow> string \<Rightarrow> string io" where
  "meta_subscribe_page_webhooks w page_id subscribed_fields =
     io_bind (page_token w page_id) (\<lambda>token.
     io_bind (graph_post w (page_id @ ''/subscribed_apps'')
                [(JStr ''subscribed_fields'', JStr subscribed_fields)] token) (\<lambda>data.
     io_return (fmt data)))"

subsection \<open>Utility\<close>

text \<open>
  \<open>except ValueError\<close> also catches a JSONDecodeError, which is a subclass of it.
\<close>

fun is_ValueError :: "exn \<Rightarrow> bool" where
  "is_ValueError (Exn c msg) = (c = ValueError \<or> c = JSONDecodeError)"

definition meta_debug_token :: "world \<Rightarrow> string \<Rightarrow> string io" where
  "meta_debug_token w token_type =
     io_bind
       (if token_type = ''user'' then io_lift (map_sum id JStr (user_token w))
        else if token_type = ''app'' then io_lift (map_sum id JStr (app_token w))
        else page_token w token_type) (\<lambda>input_token.
     io_bind
       (case app_token w of
          Inr a \<Rightarrow> io_return a
        | Inl e \<Rightarrow> if is_ValueError e then io_lift (user_token w) else io_raise e) (\<lambda>app_tok.
     io_bind (graph_get w ''debug_token'' [(JStr ''input_token'', input_token)] (JStr app_tok))
       (\<lambda>data.
     io_return (fmt data))))"

text \<open>
  \<open>meta_graph_api_call\<close> in three parts, in the order of the source: the choice of the
  token (lines 879 to 886), the extra parameters (888 to 895) and the dispatch on the
  method (897 to 913). Each \<open>return\<close> of the source is a branch that ends the
  operation with \<open>io_return\<close>. The argument \<open>fields\<close> of the source is \<open>fields_arg\<close> here.
\<close>

definition graph_api_dispatch ::
  "world \<Rightarrow> string \<Rightarrow> string \<Rightarrow> string option \<Rightarrow> pydict \<Rightarrow> json \<Rightarrow> string io" where
  "graph_api_dispatch w endpoint method body extra_params token =
     (if upper method = ''GET'' then
        io_bind (graph_get w endpoint extra_params token) (\<lambda>data. io_return (fmt data))
      else if upper method = ''POST'' then
        (let post = (\<lambda>payload.
               case payload of
                 JObj kvs \<Rightarrow>
                   io_bind (graph_post w endpoint (dict_merge (dict_of_obj kvs) extra_params) token)
                     (\<lambda>data. io_return (fmt data))
               | _ \<Rightarrow>
                   io_raise (Exn AttributeError
                     ([CHR 0x27] @ type_name payload @ [CHR 0x27] @ '' object has no attribute ''
                      @ [CHR 0x27] @ ''update'' @ [CHR 0x27])))
         in case body of
              None \<Rightarrow> post (JObj [])
            | Some b \<Rightarrow>
                if b \<noteq> [] then
                  (case json_loads w b of
                     Inl msg \<Rightarrow> io_return (fmt (JObj [(''error'', JStr ''body must be valid JSON'')]))
                   | Inr payload \<Rightarrow> post payload)
                else post (JObj []))
      else if upper method = ''DELETE'' then
        io_bind (graph_delete w endpoint token) (\<lambda>data. io_return (fmt data))
      else
        io_return (fmt (JObj [(''error'',
          JStr (''Unsupported method: '' @ method @ ''. Use GET, POST, or DELETE.''))])))"

definition graph_api_params ::
  "world \<Rightarrow> string \<Rightarrow> string \<Rightarrow> string option \<Rightarrow> string option \<Rightarrow> string option \<Rightarrow> json
     \<Rightarrow> string io" where
  "graph_api_params w endpoint method fields_arg params body token =
     (let extra_params =
            (case fields_arg of
               None \<Rightarrow> []
             | Some f \<Rightarrow> if f \<noteq> [] then [(JStr ''fields'', JStr f)] else [])
      in case params of
           None \<Rightarrow> graph_api_dispatch w endpoint method body extra_params token
         | Some p \<Rightarrow>
             if p \<noteq> [] then
               (case json_loads w p of
                  Inl msg \<Rightarrow> io_return (fmt (JObj [(''error'', JStr ''params must be valid JSON'')]))
                | Inr j \<Rightarrow>
                    (case dict_update extra_params j of
                       Inl e \<Rightarrow> io_raise e
                     | Inr extra_params' \<Rightarrow>
                         graph_api_dispatch w endpoint method body extra_params' token))
             else graph_api_dispatch w endpoint method body extra_params token)"

definition meta_graph_api_call ::
  "world \<Rightarrow> string \<Rightarrow> string \<Rightarrow> string \<Rightarrow> string option \<Rightarrow> string option \<Rightarrow> string option
     \<Rightarrow> string option \<Rightarrow> string io" where
  "meta_graph_api_call w endpoint method token_type page_id fields_arg params body =
     (if token_type = ''page'' then
        (case page_id of
           None \<Rightarrow>
             io_return (fmt (JObj [(''error'',
               JStr (''page_id is required when token_type='page'' @ [CHR 0x27]))]))
         | Some p \<Rightarrow>
             if p = [] then
               io_return (fmt (JObj [(''error'',
                 JStr (''page_id is required when token_type='page'' @ [CHR 0x27]))]))
             else
               io_bind (page_token w p)
                 (graph_api_params w endpoint method fields_arg params body))
      else if token_type = ''app'' then
        io_bind (io_lift (app_token w))
          (\<lambda>token. graph_api_params w endpoint method fields_arg params body (JStr token))
      else
        io_bind (io_lift (user_token w))
          (\<lambda>token. graph_api_params w endpoint method fields_arg params body (JStr token)))"

subsection \<open>The registry of operations\<close>

text \<open>
  The hosting layer calls an operation by its registered name with its arguments. A
  call is a value of \<open>tool_call\<close>, one constructor for each \<open>@mcp.tool\<close> of the source;
  \<open>invoke\<close> runs it.
\<close>

datatype tool_call =
    List_pages
  | Get_page_info string
  | Get_page_posts string int
  | Create_page_post string string "string option"
  | Delete_page_post string string
  | Get_post_comments string string int
  | Reply_to_comment string string string
  | Delete_comment string string
  | Like_comment string string
  | Hide_comment string string bool
  | Get_ad_accounts
  | Get_ad_campaigns string string int
  | Get_ad_adsets string "string option" string int
  | Get_ads string "string option" "string option" string int
  | Get_ad_creative string
  | Get_ad_comments string string int string
  | Reply_to_ad_comment string string string
  | Hide_ad_comment string string bool
  | Delete_ad_comment string string
  | Get_ig_accounts string
  | Get_ig_media string string int
  | Get_ig_comments string string int
  | Reply_ig_comment string string string
  | Delete_ig_comment string string
  | Get_conversations string int
  | Get_conversation_messages string string int
  | Send_message string string string
  | Get_lead_forms string
  | Get_lead_data string string int
  | Get_page_insights string string string "string option" "string option"
  | Get_post_insights string string
  | Get_page_subscriptions string
  | Subscribe_page_webhooks string string
  | Debug_token string
  | Graph_api_call string string string "string option" "string option" "string option"
      "string option"

fun invoke :: "world \<Rightarrow> tool_call \<Rightarrow> string io" where
  "invoke w List_pages = meta_list_pages w"
| "invoke w (Get_page_info page_id) = meta_get_page_info w page_id"
| "invoke w (Get_page_posts page_id limit) = meta_get_page_posts w page_id limit"
| "invoke w (Create_page_post page_id message link) = meta_create_page_post w page_id message link"
| "invoke w (Delete_page_post post_id page_id) = meta_delete_page_post w post_id page_id"
| "invoke w (Get_post_comments post_id page_id limit) =
     meta_get_post_comments w post_id page_id limit"
| "invoke w (Reply_to_comment comment_id page_id message) =
     meta_reply_to_comment w comment_id page_id message"
| "invoke w (Delete_comment comment_id page_id) = meta_delete_comment w comment_id page_id"
| "invoke w (Like_comment comment_id page_id) = meta_like_comment w comment_id page_id"
| "invoke w (Hide_comment comment_id page_id is_hidden) =
     meta_hide_comment w comment_id page_id is_hidden"
| "invoke w Get_ad_accounts = meta_get_ad_accounts w"
| "invoke w (Get_ad_campaigns ad_account_id status_filter limit) =
     meta_get_ad_campaigns w ad_account_id status_filter limit"
| "invoke w (Get_ad_adsets ad_account_id campaign_id status_filter limit) =
     meta_get_ad_adsets w ad_account_id campaign_id status_filter limit"
| "invoke w (Get_ads ad_account_id campaign_id adset_id status_filter limit) =
     meta_get_ads w ad_account_id campaign_id adset_id status_filter limit"
| "invoke w (Get_ad_creative ad_id) = meta_get_ad_creative w ad_id"
| "invoke w (Get_ad_comments story_id page_id limit filter_type) =
     meta_get_ad_comments w story_id page_id limit filter_type"
| "invoke w (Reply_to_ad_comment comment_id page_id message) =
     meta_reply_to_ad_comment w comment_id page_id message"
| "invoke w (Hide_ad_comment comment_id page_id is_hidden) =
     meta_hide_ad_comment w comment_id page_id is_hidden"
| "invoke w (Delete_ad_comment comment_id page_id) = meta_delete_ad_comment w comment_id page_id"
| "invoke w (Get_ig_accounts page_id) = meta_get_ig_accounts w page_id"
| "invoke w (Get_ig_media ig_account_id page_id limit) =
     meta_get_ig_media w ig_account_id page_id limit"
| "invoke w (Get_ig_comments media_id page_id limit) = meta_get_ig_comments w media_id page_id limit"
| "invoke w (Reply_ig_comment comment_id page_id message) =
     meta_reply_ig_comment w comment_id page_id message"
| "invoke w (Delete_ig_comment comment_id page_id) = meta_delete_ig_comment w comment_id page_id"
| "invoke w (Get_conversations page_id limit) = meta_get_conversations w page_id limit"
| "invoke w (Get_conversation_messages conversation_id page_id limit) =
     meta_get_conversation_messages w conversation_id page_id limit"
| "invoke w (Send_message page_id recipient_id message) =
     meta_send_message w page_id recipient_id message"
| "invoke w (Get_lead_forms page_id) = meta_get_lead_forms w page_id"
| "invoke w (Get_lead_data form_id page_id limit) = meta_get_lead_data w form_id page_id limit"
| "invoke w (Get_page_insights page_id metrics period since until) =
     meta_get_page_insights w page_id metrics period since until"
| "invoke w (Get_post_insights post_id page_id) = meta_get_post_insights w post_id page_id"
| "invoke w (Get_page_subscriptions page_id) = meta_get_page_subscriptions w page_id"
| "invoke w (Subscribe_page_webhooks page_id subscribed_fields) =
     meta_subscribe_page_webhooks w page_id subscribed_fields"
| "invoke w (Debug_token token_type) = meta_debug_token w token_type"
| "invoke w (Graph_api_call endpoint method token_type page_id fields_arg params body) =
     meta_graph_api_call w endpoint method token_type page_id fields_arg params body"

section \<open>Vocabulary of the statements\<close>

text \<open>
  Names for what the statements below talk about. The request of the token exchange and
  the error it is wrapped in are the literals of \<open>_exchange_page_token\<close>.
\<close>

definition exchange_request :: "string \<Rightarrow> string \<Rightarrow> request" where
  "exchange_request page_id user_tok =
     Get (GRAPH_API_BASE @ ''/'' @ page_id)
       [(JStr ''fields'', JStr ''access_token''), (JStr ''access_token'', JStr user_tok)]"

definition exchange_error :: "string \<Rightarrow> string \<Rightarrow> exn" where
  "exchange_error page_id cause =
     Exn ValueError (''Could not get page token for '' @ page_id @ '': '' @ cause)"

text \<open>
  The uniform error document built from a remote error object, and the requests of the
  three primitives.
\<close>

definition error_result :: "(string \<times> json) list \<Rightarrow> json" where
  "error_result err =
     JObj [(''error'',
       (case map_of err ''message'' of None \<Rightarrow> JStr (py_str (JObj err)) | Some m \<Rightarrow> m))]"

definition get_request :: "string \<Rightarrow> pydict \<Rightarrow> json \<Rightarrow> request" where
  "get_request endpoint params token =
     Get (GRAPH_API_BASE @ ''/'' @ endpoint) (dict_set params (JStr ''access_token'') token)"

definition post_request :: "string \<Rightarrow> pydict \<Rightarrow> json \<Rightarrow> request" where
  "post_request endpoint payload token =
     Post (GRAPH_API_BASE @ ''/'' @ endpoint) (dict_set payload (JStr ''access_token'') token)"

definition delete_request :: "string \<Rightarrow> json \<Rightarrow> request" where
  "delete_request endpoint token =
     Delete (GRAPH_API_BASE @ ''/'' @ endpoint) [(JStr ''access_token'', token)]"

text \<open>
  What a run of an operation sent: \<open>sends_limit run before v\<close> says that the run added
  exactly one request to the log \<open>before\<close> and that this request carries \<open>str(v)\<close> as
  its \<open>limit\<close>; \<open>sends_filtering run before vs\<close> says the same with \<open>vs\<close> the values of
  all its \<open>filtering\<close> parameters (none, or one).
\<close>

definition sent_params :: "request \<Rightarrow> pydict" where
  "sent_params req = (case req of Get url ps \<Rightarrow> ps | Post url ps \<Rightarrow> ps | Delete url ps \<Rightarrow> ps)"

definition limit_param :: "request \<Rightarrow> json option" where
  "limit_param req = dict_get (sent_params req) (JStr ''limit'')"

definition filtering_values :: "request \<Rightarrow> json list" where
  "filtering_values req = map snd (filter (\<lambda>kv. fst kv = JStr ''filtering'') (sent_params req))"

definition clamp_limit :: "int \<Rightarrow> int \<Rightarrow> int" where
  "clamp_limit ceiling n = min (max n 1) ceiling"

definition sends_limit :: "(exn + string) \<times> request list \<Rightarrow> request list \<Rightarrow> int \<Rightarrow> bool" where
  "sends_limit run before v =
     (case rev (snd run) of
        [] \<Rightarrow> False
      | req # earlier \<Rightarrow> rev earlier = before \<and> limit_param req = Some (JStr (str_int v)))"

definition sends_filtering ::
  "(exn + string) \<times> request list \<Rightarrow> request list \<Rightarrow> json list \<Rightarrow> bool" where
  "sends_filtering run before vs =
     (case rev (snd run) of
        [] \<Rightarrow> False
      | req # earlier \<Rightarrow> rev earlier = before \<and> filtering_values req = vs)"

definition status_clause :: "string \<Rightarrow> json" where
  "status_clause status =
     JObj [(''field'', JStr ''effective_status''), (''operator'', JStr ''IN''),
           (''value'', JArr [JStr (upper status)])]"

definition equal_clause :: "string \<Rightarrow> string \<Rightarrow> json" where
  "equal_clause field v =
     JObj [(''field'', JStr field), (''operator'', JStr ''EQUAL''), (''value'', JStr v)]"

definition is_all :: "string \<Rightarrow> bool" where
  "is_all status = (upper status = upper ''all'')"

definition status_clauses :: "string \<Rightarrow> json list" where
  "status_clauses status = (if is_all status then [] else [status_clause status])"

fun identity_clauses :: "string \<Rightarrow> string option \<Rightarrow> json list" where
  "identity_clauses field None = []"
| "identity_clauses field (Some v) = (if v = [] then [] else [equal_clause field v])"

definition encoded_filter :: "json list \<Rightarrow> json list" where
  "encoded_filter clauses = (if clauses = [] then [] else [JStr (json_dumps (JArr clauses))])"

text \<open>
  The credential an operation resolves first, in the words of the specification: a
  principal is the user, the application or a page, \<open>resolve\<close> obtains its credential,
  and \<open>principal_of\<close> names the principal of a call (none for the raw call that selects
  a page without a page id). \<open>fixed_call\<close> holds of the operations that resolve one
  credential and then issue one request.
\<close>

datatype principal = User | App | Page string

fun resolve :: "world \<Rightarrow> principal \<Rightarrow> json io" where
  "resolve w User = io_lift (map_sum id JStr (user_token w))"
| "resolve w App = io_lift (map_sum id JStr (app_token w))"
| "resolve w (Page page_id) = page_token w page_id"

fun principal_of :: "tool_call \<Rightarrow> principal option" where
  "principal_of List_pages = Some User"
| "principal_of (Get_page_info page_id) = Some (Page page_id)"
| "principal_of (Get_page_posts page_id limit) = Some (Page page_id)"
| "principal_of (Create_page_post page_id message link) = Some (Page page_id)"
| "principal_of (Delete_page_post post_id page_id) = Some (Page page_id)"
| "principal_of (Get_post_comments post_id page_id limit) = Some (Page page_id)"
| "principal_of (Reply_to_comment comment_id page_id message) = Some (Page page_id)"
| "principal_of (Delete_comment comment_id page_id) = Some (Page page_id)"
| "principal_of (Like_comment comment_id page_id) = Some (Page page_id)"
| "principal_of (Hide_comment comment_id page_id is_hidden) = Some (Page page_id)"
| "principal_of Get_ad_accounts = Some User"
| "principal_of (Get_ad_campaigns ad_account_id status_filter limit) = Some User"
| "principal_of (Get_ad_adsets ad_account_id campaign_id status_filter limit) = Some User"
| "principal_of (Get_ads ad_account_id campaign_id adset_id status_filter limit) = Some User"
| "principal_of (Get_ad_creative ad_id) = Some User"
| "principal_of (Get_ad_comments story_id page_id limit filter_type) = Some (Page page_id)"
| "principal_of (Reply_to_ad_comment comment_id page_id message) = Some (Page page_id)"
| "principal_of (Hide_ad_comment comment_id page_id is_hidden) = Some (Page page_id)"
| "principal_of (Delete_ad_comment comment_id page_id) = Some (Page page_id)"
| "principal_of (Get_ig_accounts page_id) = Some (Page page_id)"
| "principal_of (Get_ig_media ig_account_id page_id limit) = Some (Page page_id)"
| "principal_of (Get_ig_comments media_id page_id limit) = Some (Page page_id)"
| "principal_of (Reply_ig_comment comment_id page_id message) = Some (Page page_id)"
| "principal_of (Delete_ig_comment comment_id page_id) = Some (Page page_id)"
| "principal_of (Get_conversations page_id limit) = Some (Page page_id)"
| "principal_of (Get_conversation_messages conversation_id page_id limit) = Some (Page page_id)"
| "principal_of (Send_message page_id recipient_id message) = Some (Page page_id)"
| "principal_of (Get_lead_forms page_id) = Some (Page page_id)"
| "principal_of (Get_lead_data form_id page_id limit) = Some (Page page_id)"
| "principal_of (Get_page_insights page_id metrics period since until) = Some (Page page_id)"
| "principal_of (Get_post_insights post_id page_id) = Some (Page page_id)"
| "principal_of (Get_page_subscriptions page_id) = Some (Page page_id)"
| "principal_of (Subscribe_page_webhooks page_id subscribed_fields) = Some (Page page_id)"
| "principal_of (Debug_token token_type) =
     Some (if token_type = ''user'' then User else if token_type = ''app'' then App
           else Page token_type)"
| "principal_of (Graph_api_call endpoint method token_type page_id fields_arg params body) =
     (if token_type = ''page'' then
        (case page_id of None \<Rightarrow> None | Some p \<Rightarrow> if p = [] then None else Some (Page p))
      else if token_type = ''app'' then Some App
      else Some User)"

fun fixed_call :: "tool_call \<Rightarrow> bool" where
  "fixed_call (Debug_token token_type) = False"
| "fixed_call (Graph_api_call endpoint method token_type page_id fields_arg params body) = False"
| "fixed_call c = True"

text \<open>
  For the raw call: the parameters it starts from (the \<open>fields\<close> argument, when
  supplied), the extra parameters when the \<open>params\<close> blob is absent or decodes and
  merges, and the formatted error document with a given message.
\<close>

definition fields_params :: "string option \<Rightarrow> pydict" where
  "fields_params fields_arg =
     (case fields_arg of
        None \<Rightarrow> []
      | Some f \<Rightarrow> if f = [] then [] else [(JStr ''fields'', JStr f)])"

definition merged_extra :: "world \<Rightarrow> string option \<Rightarrow> string option \<Rightarrow> pydict option" where
  "merged_extra w fields_arg params =
     (case params of
        None \<Rightarrow> Some (fields_params fields_arg)
      | Some p \<Rightarrow>
          if p = [] then Some (fields_params fields_arg)
          else (case json_loads w p of
                  Inl msg \<Rightarrow> None
                | Inr j \<Rightarrow>
                    (case dict_update (fields_params fields_arg) j of
                       Inl e \<Rightarrow> None
                     | Inr d \<Rightarrow> Some d)))"

fun is_object :: "json \<Rightarrow> bool" where
  "is_object (JObj kvs) = True"
| "is_object j = False"

definition error_document :: "string \<Rightarrow> string" where
  "error_document msg = fmt (JObj [(''error'', JStr msg)])"

text \<open>
  The outcome of one request issued at the log \<open>lg\<close>: a transport failure and a body
  that does not decode are raised, a decoded body is handed to \<open>k\<close>; the request is
  added to the log.
\<close>

definition request_outcome ::
  "world \<Rightarrow> request list \<Rightarrow> request \<Rightarrow> (json \<Rightarrow> exn + string)
     \<Rightarrow> (exn + string) \<times> request list" where
  "request_outcome w lg req k =
     (case http w lg req of
        Failure msg \<Rightarrow> Inl (Exn TransportError msg)
      | Reply r \<Rightarrow> (case response_json w r of Inl e \<Rightarrow> Inl e | Inr data \<Rightarrow> k data),
      lg @ [req])"

text \<open>The requests a run added to the log it started from.\<close>

definition issued :: "'a \<times> request list \<Rightarrow> request list \<Rightarrow> request list" where
  "issued run before = drop (length before) (snd run)"

definition access_token_param :: "request \<Rightarrow> json option" where
  "access_token_param req = dict_get (sent_params req) (JStr ''access_token'')"

section \<open>Concrete worlds\<close>

text \<open>
  Worlds on which the operations are run below. The decoder of these worlds knows the
  texts of a handful of documents and rejects every other text.
\<close>

definition demo_documents :: "json list" where
  "demo_documents =
     [JObj [],
      JObj [(''123'', JStr ''PT''), (''456'', JStr [])],
      JObj [(''access_token'', JStr ''XT'')],
      JObj [(''data'', JArr [])],
      JObj [(''error'', JObj [(''message'', JStr ''Invalid OAuth access token.''), (''code'', JNum 190)])],
      JBool True]"

definition demo_loads :: "string \<Rightarrow> string + json" where
  "demo_loads s =
     (case find (\<lambda>j. json_dumps j = s) demo_documents of
        None \<Rightarrow> Inl ''Expecting value: line 1 column 1 (char 0)''
      | Some j \<Rightarrow> Inr j)"

definition demo_environ :: "string \<Rightarrow> string option" where
  "demo_environ =
     [''META_SYSTEM_USER_TOKEN'' \<mapsto> ''UT'',
      ''META_PAGE_TOKENS'' \<mapsto> json_dumps (JObj [(''123'', JStr ''PT''), (''456'', JStr [])])]"

definition reply_with :: "json \<Rightarrow> request list \<Rightarrow> request \<Rightarrow> http_outcome" where
  "reply_with j = (\<lambda>log req. Reply \<lparr>status_code = 200, status_error = [], body_text = json_dumps j\<rparr>)"

definition demo_world :: world where
  "demo_world = \<lparr>environ = demo_environ, json_loads = demo_loads,
                  http = reply_with (JObj [(''access_token'', JStr ''XT'')])\<rparr>"

definition bare_world :: world where
  "bare_world = \<lparr>environ = Map.empty, json_loads = demo_loads,
                  http = (\<lambda>log req. Failure ''connection refused'')\<rparr>"

definition demo_reply :: response where
  "demo_reply = \<lparr>status_code = 200, status_error = [],
                  body_text = json_dumps (JObj [(''access_token'', JStr ''XT'')])\<rparr>"

text \<open>Worlds whose service answers with an error object and with a bare \<open>true\<close>.\<close>

definition error_reply :: response where
  "error_reply = \<lparr>status_code = 400, status_error = ''Client error'',
     body_text = json_dumps (JObj [(''error'',
       JObj [(''message'', JStr ''Invalid OAuth access token.''), (''code'', JNum 190)])])\<rparr>"

definition error_world :: world where
  "error_world = \<lparr>environ = demo_environ, json_loads = demo_loads,
                   http = (\<lambda>log req. Reply error_reply)\<rparr>"

definition scalar_world :: world where
  "scalar_world = \<lparr>environ = demo_environ, json_loads = demo_loads,
                    http = reply_with (JBool True)\<rparr>"

text \<open>A world with the user credential in which every request fails in transport.\<close>

definition down_world :: world where
  "down_world = \<lparr>environ = demo_environ, json_loads = demo_loads,
                  http = (\<lambda>log req. Failure ''connection refused'')\<rparr>"

text \<open>
  A world in which the first request gets the reply with the exchanged token and every
  later request fails in transport.
\<close>

definition flaky_world :: world where
  "flaky_world = \<lparr>environ = demo_environ, json_loads = demo_loads,
     http = (\<lambda>log req. if log = [] then Reply demo_reply
                        else Failure ''connection refused'')\<rparr>"

text \<open>A world with the user credential in which every reply is a page of HTML.\<close>

definition garbled_reply :: response where
  "garbled_reply = \<lparr>status_code = 502, status_error = [], body_text = ''<html>Bad Gateway</html>''\<rparr>"

definition garbled_world :: world where
  "garbled_world = \<lparr>environ = demo_environ, json_loads = demo_loads,
                     http = (\<lambda>log req. Reply garbled_reply)\<rparr>"

section \<open>Helper lemmas\<close>

lemma io_bind_Inr: "m log = (Inr x, log') \<Longrightarrow> io_bind m f log = f x log'"
  by (simp add: io_bind_def)

lemma io_bind_Inl: "m log = (Inl e, log') \<Longrightarrow> io_bind m f log = (Inl e, log')"
  by (simp add: io_bind_def)

lemma io_bind_lift_Inr: "io_bind (io_lift (Inr x)) f = f x"
  by (simp add: io_bind_def io_lift_def)

lemma io_bind_lift_Inl: "io_bind (io_lift (Inl e)) f log = (Inl e, log)"
  by (simp add: io_bind_def io_lift_def)

lemma key_eq_refl: "key_eq k k"
  by (cases k) simp_all

lemma dict_get_set_same: "dict_get (dict_set d k v) k = Some v"
  by (induction d) (auto simp: key_eq_refl)

lemma snd_graph_get:
  "snd (graph_get w endpoint params token log) =
     log @ [Get (GRAPH_API_BASE @ ''/'' @ endpoint) (dict_set params (JStr ''access_token'') token)]"
  by (simp add: graph_get_def io_bind_def io_lift_def send_def split: prod.splits sum.splits)

lemma snd_graph_post:
  "snd (graph_post w endpoint payload token log) =
     log @ [Post (GRAPH_API_BASE @ ''/'' @ endpoint) (dict_set payload (JStr ''access_token'') token)]"
  by (simp add: graph_post_def io_bind_def io_lift_def send_def split: prod.splits sum.splits)

text \<open>
  The encoders on three documents: the text of a filter array as \<open>json.dumps\<close> writes
  it, the document the raw call returns for a page selector without a page id as
  \<open>_fmt\<close> writes it, and \<open>str\<close> of an error object without a \<open>message\<close> field.
\<close>

lemma filtering_text:
  \<open>json_dumps (JArr [status_clause ''active'', equal_clause ''campaign.id'' ''c1'']) =
    ''[{"field": "effective_status", "operator": "IN", "value": ["ACTIVE"]}, {"field": "campaign.id", "operator": "EQUAL", "value": "c1"}]''\<close>
  by code_simp

lemma page_id_required_text:
  \<open>error_document (''page_id is required when token_type='page'' @ [CHR 0x27]) =
    ''{'' @ [CHR 0x0A] @ ''  "error": "page_id is required when token_type='page'"'' @ [CHR 0x0A] @ ''}''\<close>
  by code_simp

lemma error_repr_text:
  \<open>error_result [(''code'', JNum 190), (''type'', JStr ''OAuthException'')] =
    JObj [(''error'', JStr ''{'code': 190, 'type': 'OAuthException'}'')]\<close>
  by code_simp

section \<open>The credential in the request\<close>

text \<open>
  Claim C8. Whatever parameter mapping the caller gives to the read primitive, also one
  that already has an \<open>access_token\<close> key, the request that is sent carries the resolved
  credential under \<open>access_token\<close> among its query parameters; the write primitive
  does the same with the fields of its form body.
\<close>

theorem credential_injected:
  "snd (graph_get w endpoint params token log) =
     log @ [Get (GRAPH_API_BASE @ ''/'' @ endpoint) (dict_set params (JStr ''access_token'') token)]
   \<and> snd (graph_post w endpoint payload token log) =
     log @ [Post (GRAPH_API_BASE @ ''/'' @ endpoint) (dict_set payload (JStr ''access_token'') token)]
   \<and> dict_get (dict_set params (JStr ''access_token'') token) (JStr ''access_token'') = Some token
   \<and> dict_get (dict_set payload (JStr ''access_token'') token) (JStr ''access_token'') = Some token"
  by (simp add: snd_graph_get snd_graph_post dict_get_set_same)

section \<open>The token selector of the raw call\<close>

text \<open>
  Claim C9. The raw call with \<open>token_type = "page"\<close> and no page id (none given, or the
  empty string) returns the document \<open>{"error": "page_id is required when
  token_type='page'"}\<close>; it resolves no credential and issues no request: the log is
  unchanged, in every world.
\<close>

theorem page_selector_without_page_id:
  "\<not> supplied page_id \<Longrightarrow>
   meta_graph_api_call w endpoint method ''page'' page_id fields_arg params body log =
     (Inr (fmt (JObj [(''error'', JStr (''page_id is required when token_type='page'' @ [CHR 0x27]))])),
      log)"
  by (cases page_id) (simp_all add: meta_graph_api_call_def io_return_def)

theorem page_selector_without_page_id_witness:
  "\<not> supplied None \<and>
   meta_graph_api_call bare_world ''me'' ''GET'' ''page'' None None None None [] =
     (Inr (fmt (JObj [(''error'', JStr (''page_id is required when token_type='page'' @ [CHR 0x27]))])),
      [])"
  using page_selector_without_page_id [of None bare_world "''me''" "''GET''" None None None "[]"]
  by simp

section \<open>Resolving a page credential\<close>

lemma page_token_miss:
  "page_tokens w = JObj m \<Longrightarrow> map_of m page_id = None \<Longrightarrow>
   page_token w page_id = exchange_page_token w page_id"
  by (simp add: page_token_def py_get_def)

lemma exchange_no_user_token:
  "user_token w = Inl e \<Longrightarrow>
   exchange_page_token w page_id log = (Inl (exchange_error page_id (exn_str e)), log)"
  by (simp add: exchange_page_token_def exchange_attempt_def io_catch_def io_bind_lift_Inl
      io_raise_def exchange_error_def)

lemma exchange_attempt_run:
  "user_token w = Inr ut \<Longrightarrow>
   exchange_attempt w page_id log =
     (case http w log (exchange_request page_id ut) of
        Failure msg \<Rightarrow> Inl (Exn TransportError msg)
      | Reply r \<Rightarrow>
          (case raise_for_status r of
             Inl e \<Rightarrow> Inl e
           | Inr u \<Rightarrow>
               (case response_json w r of
                  Inl e \<Rightarrow> Inl e
                | Inr data \<Rightarrow>
                    (case py_get data ''access_token'' of
                       Inl e \<Rightarrow> Inl e
                     | Inr token \<Rightarrow>
                         if truthy token then Inr token
                         else Inl (Exn ValueError (''No access_token returned for page '' @ page_id))))),
      log @ [exchange_request page_id ut])"
  by (simp add: exchange_attempt_def io_bind_lift_Inr io_bind_def send_def io_lift_def
      io_return_def io_raise_def exchange_request_def
      split: http_outcome.splits sum.splits)

lemma exchange_run:
  "user_token w = Inr ut \<Longrightarrow>
   exchange_page_token w page_id log =
     (case fst (exchange_attempt w page_id log) of
        Inl e \<Rightarrow> Inl (exchange_error page_id (exn_str e))
      | Inr token \<Rightarrow> Inr token,
      log @ [exchange_request page_id ut])"
  by (simp add: exchange_page_token_def io_catch_def exchange_attempt_run io_raise_def
      exchange_error_def split: sum.splits)

lemma exchange_token_truthy:
  "fst (exchange_page_token w page_id log) = Inr tok \<Longrightarrow> truthy tok"
proof (cases "user_token w")
  case (Inl e)
  assume "fst (exchange_page_token w page_id log) = Inr tok"
  with Inl show ?thesis by (simp add: exchange_no_user_token)
next
  case (Inr ut)
  assume "fst (exchange_page_token w page_id log) = Inr tok"
  with Inr show ?thesis
    by (simp add: exchange_run exchange_attempt_run
        split: http_outcome.splits sum.splits if_splits)
qed

lemma exchange_failure_wrapped:
  "fst (exchange_page_token w page_id log) = Inl x \<Longrightarrow> \<exists>cause. x = exchange_error page_id cause"
  by (auto simp: exchange_page_token_def io_catch_def io_raise_def exchange_error_def
      split: prod.splits sum.splits)

text \<open>
  Claim C5, as amended. For every page id that the static page-credential map binds to
  a value that is true in Python's sense (a non-empty string, in a well-formed map),
  resolving the page credential returns the mapped value and issues no request; a key
  bound to any other value is resolved as a key that is absent, by the exchange.
\<close>

theorem static_page_token:
  assumes "page_tokens w = JObj m" and "map_of m page_id = Some v"
  shows "(truthy v \<longrightarrow> page_token w page_id log = (Inr v, log))
         \<and> (\<not> truthy v \<longrightarrow> page_token w page_id log = exchange_page_token w page_id log)"
  using assms by (simp add: page_token_def py_get_def io_return_def)

theorem static_page_token_witness:
  "page_tokens demo_world = JObj [(''123'', JStr ''PT''), (''456'', JStr [])]
   \<and> map_of [(''123'', JStr ''PT''), (''456'', JStr [])] ''123'' = Some (JStr ''PT'')
   \<and> truthy (JStr ''PT'')
   \<and> page_token demo_world ''123'' [] = (Inr (JStr ''PT''), [])
   \<and> map_of [(''123'', JStr ''PT''), (''456'', JStr [])] ''456'' = Some (JStr [])
   \<and> \<not> truthy (JStr [])
   \<and> page_token demo_world ''456'' [] = exchange_page_token demo_world ''456'' []"
proof -
  have m: "page_tokens demo_world = JObj [(''123'', JStr ''PT''), (''456'', JStr [])]"
    by code_simp
  have k: "map_of [(''123'', JStr ''PT''), (''456'', JStr [])] ''123'' = Some (JStr ''PT'')"
    by simp
  have k': "map_of [(''123'', JStr ''PT''), (''456'', JStr [])] ''456'' = Some (JStr [])"
    by simp
  show ?thesis
    using static_page_token [OF m k, of "[]"] static_page_token [OF m k', of "[]"] m k k'
    by simp
qed

text \<open>
  Claim C5 as stated fails for a key that is present with an empty value: the lookup
  \<open>if not token\<close> treats it as a miss and the exchange is run. Here the map binds
  page 456 to the empty string; the resolution issues one request and returns the
  exchanged token, not the mapped value.
\<close>

theorem empty_static_token_counterexample:
  "page_tokens demo_world = JObj [(''123'', JStr ''PT''), (''456'', JStr [])]
   \<and> map_of [(''123'', JStr ''PT''), (''456'', JStr [])] ''456'' = Some (JStr [])
   \<and> page_token demo_world ''456'' [] =
       (Inr (JStr ''XT''),
        [Get ''https://graph.facebook.com/v22.0/456''
           [(JStr ''fields'', JStr ''access_token''), (JStr ''access_token'', JStr ''UT'')]])"
  by code_simp

text \<open>
  Claim C6, as amended. For every page id absent from the static map: when the user
  credential is configured, resolving the page credential issues exactly one request,
  the read of the page's \<open>access_token\<close> field with the user credential; a transport
  failure, a status for which \<open>raise_for_status\<close> raises, a body that does not decode
  and a decoded object without the field all fail with the wrapped error that names the
  page id and the cause, and a decoded object with a non-empty field gives that value.
  When the user credential is not configured no request is issued and the resolution
  fails with the same wrapped error. A token that is returned is never empty, and
  every failure is the wrapped error.
\<close>

theorem exchange_on_map_miss:
  assumes "page_tokens w = JObj m" and "map_of m page_id = None"
  shows
    "(user_token w = Inl e \<longrightarrow>
        page_token w page_id log = (Inl (exchange_error page_id (exn_str e)), log))
     \<and> (user_token w = Inr ut \<longrightarrow>
          snd (page_token w page_id log) = log @ [exchange_request page_id ut]
          \<and> (http w log (exchange_request page_id ut) = Failure msg \<longrightarrow>
               fst (page_token w page_id log) = Inl (exchange_error page_id msg))
          \<and> (http w log (exchange_request page_id ut) = Reply r \<longrightarrow>
               (raise_for_status r = Inl e' \<longrightarrow>
                  fst (page_token w page_id log) = Inl (exchange_error page_id (exn_str e')))
               \<and> (raise_for_status r = Inr () \<longrightarrow>
                    (response_json w r = Inl e' \<longrightarrow>
                       fst (page_token w page_id log) = Inl (exchange_error page_id (exn_str e')))
                    \<and> (response_json w r = Inr (JObj d) \<longrightarrow>
                         (map_of d ''access_token'' = Some tok \<and> truthy tok \<longrightarrow>
                            fst (page_token w page_id log) = Inr tok)
                         \<and> (map_of d ''access_token'' = None \<longrightarrow>
                              fst (page_token w page_id log) =
                                Inl (exchange_error page_id
                                  (''No access_token returned for page '' @ page_id)))))))
     \<and> (fst (page_token w page_id log) = Inr tok' \<longrightarrow> truthy tok')
     \<and> (fst (page_token w page_id log) = Inl x \<longrightarrow> (\<exists>cause. x = exchange_error page_id cause))"
proof -
  have eq: "page_token w page_id = exchange_page_token w page_id"
    using assms by (rule page_token_miss)
  show ?thesis
    unfolding eq
    by (auto simp: exchange_no_user_token exchange_run exchange_attempt_run py_get_def
        exchange_error_def dest: exchange_token_truthy exchange_failure_wrapped)
qed

theorem exchange_on_map_miss_witness:
  "page_tokens demo_world = JObj [(''123'', JStr ''PT''), (''456'', JStr [])]
   \<and> map_of [(''123'', JStr ''PT''), (''456'', JStr [])] ''999'' = None
   \<and> user_token demo_world = Inr ''UT''
   \<and> http demo_world [] (exchange_request ''999'' ''UT'') = Reply demo_reply
   \<and> raise_for_status demo_reply = Inr ()
   \<and> response_json demo_world demo_reply = Inr (JObj [(''access_token'', JStr ''XT'')])
   \<and> map_of [(''access_token'', JStr ''XT'')] ''access_token'' = Some (JStr ''XT'')
   \<and> truthy (JStr ''XT'')
   \<and> snd (page_token demo_world ''999'' []) = [exchange_request ''999'' ''UT'']
   \<and> fst (page_token demo_world ''999'' []) = Inr (JStr ''XT'')
   \<and> page_tokens down_world = JObj [(''123'', JStr ''PT''), (''456'', JStr [])]
   \<and> user_token down_world = Inr ''UT''
   \<and> http down_world [] (exchange_request ''999'' ''UT'') = Failure ''connection refused''
   \<and> snd (page_token down_world ''999'' []) = [exchange_request ''999'' ''UT'']
   \<and> fst (page_token down_world ''999'' []) = Inl (exchange_error ''999'' ''connection refused'')"
proof -
  have m: "page_tokens demo_world = JObj [(''123'', JStr ''PT''), (''456'', JStr [])]"
    by code_simp
  have k: "map_of [(''123'', JStr ''PT''), (''456'', JStr [])] ''999'' = None"
    by simp
  have u: "user_token demo_world = Inr ''UT''"
    by code_simp
  have h: "http demo_world [] (exchange_request ''999'' ''UT'') = Reply demo_reply"
    by (simp add: demo_world_def reply_with_def demo_reply_def)
  have s: "raise_for_status demo_reply = Inr ()"
    by (simp add: raise_for_status_def demo_reply_def)
  have j: "response_json demo_world demo_reply = Inr (JObj [(''access_token'', JStr ''XT'')])"
    by code_simp
  have m': "page_tokens down_world = JObj [(''123'', JStr ''PT''), (''456'', JStr [])]"
    by code_simp
  have u': "user_token down_world = Inr ''UT''"
    by code_simp
  have h': "http down_world [] (exchange_request ''999'' ''UT'') = Failure ''connection refused''"
    by (simp add: down_world_def)
  show ?thesis
    using exchange_on_map_miss [OF m k, of _ "[]" "''UT''" _ demo_reply _
        "[(''access_token'', JStr ''XT'')]" "JStr ''XT''"]
      exchange_on_map_miss [OF m' k, of _ "[]" "''UT''" "''connection refused''"]
      m k u h s j m' u' h'
    by simp
qed

text \<open>
  Claim C6 as stated fails where no user credential is configured: for a page id
  absent from the map no exchange request is issued at all.
\<close>

theorem missing_user_token_counterexample:
  "page_tokens bare_world = JObj []
   \<and> map_of [] ''999'' = (None :: json option)
   \<and> page_token bare_world ''999'' [] =
       (Inl (Exn ValueError
          ''Could not get page token for 999: META_SYSTEM_USER_TOKEN env var is not set''), [])"
  by code_simp

section \<open>Response normalisation\<close>

lemma error_or_data_error_object:
  assumes "map_of d ''error'' = Some (JObj err)"
  shows "error_or_data (JObj d) = Inr (error_result err)"
proof -
  have "(''error'', JObj err) \<in> set d"
    using assms by (rule map_of_SomeD)
  then have "''error'' \<in> fst ` set d"
    by force
  with assms show ?thesis
    by (simp add: error_or_data_def error_result_def split: option.splits)
qed

lemma error_or_data_no_error:
  "map_of d ''error'' = None \<Longrightarrow> error_or_data (JObj d) = Inr (JObj d)"
  by (auto simp: error_or_data_def map_of_eq_None_iff)

lemma graph_get_run:
  "graph_get w endpoint params token log =
     (case http w log (get_request endpoint params token) of
        Failure msg \<Rightarrow> Inl (Exn TransportError msg)
      | Reply r \<Rightarrow> (case response_json w r of Inl e \<Rightarrow> Inl e | Inr data \<Rightarrow> error_or_data data),
      log @ [get_request endpoint params token])"
  by (simp add: graph_get_def get_request_def io_bind_def io_lift_def send_def
      split: http_outcome.splits sum.splits)

lemma graph_post_run:
  "graph_post w endpoint payload token log =
     (case http w log (post_request endpoint payload token) of
        Failure msg \<Rightarrow> Inl (Exn TransportError msg)
      | Reply r \<Rightarrow> (case response_json w r of Inl e \<Rightarrow> Inl e | Inr data \<Rightarrow> error_or_data data),
      log @ [post_request endpoint payload token])"
  by (simp add: graph_post_def post_request_def io_bind_def io_lift_def send_def
      split: http_outcome.splits sum.splits)

lemma graph_delete_run:
  "graph_delete w endpoint token log =
     (case http w log (delete_request endpoint token) of
        Failure msg \<Rightarrow> Inl (Exn TransportError msg)
      | Reply r \<Rightarrow> (case response_json w r of Inl e \<Rightarrow> Inl e | Inr data \<Rightarrow> error_or_data data),
      log @ [delete_request endpoint token])"
  by (simp add: graph_delete_def delete_request_def io_bind_def io_lift_def send_def
      split: http_outcome.splits sum.splits)

text \<open>
  Claim C7, as amended. For every response whose body decodes to a JSON object: when the
  object has an \<open>error\<close> entry that is itself an object, the read, write and remove
  primitives return \<open>{error: m}\<close>, with \<open>m\<close> the \<open>message\<close> field of the error object or,
  without such a field, \<open>str\<close> of the error object; when the object has no \<open>error\<close> key
  they return it unchanged. Nothing is assumed about the status code of the response.
\<close>

theorem remote_error_normalised:
  assumes "json_loads w (body_text r) = Inr (JObj d)"
  shows
    "(map_of d ''error'' = Some (JObj err) \<longrightarrow>
        (http w log (get_request endpoint params token) = Reply r \<longrightarrow>
           fst (graph_get w endpoint params token log) = Inr (error_result err))
        \<and> (http w log (post_request endpoint payload token) = Reply r \<longrightarrow>
             fst (graph_post w endpoint payload token log) = Inr (error_result err))
        \<and> (http w log (delete_request endpoint token) = Reply r \<longrightarrow>
             fst (graph_delete w endpoint token log) = Inr (error_result err)))
     \<and> (map_of d ''error'' = None \<longrightarrow>
          (http w log (get_request endpoint params token) = Reply r \<longrightarrow>
             fst (graph_get w endpoint params token log) = Inr (JObj d))
          \<and> (http w log (post_request endpoint payload token) = Reply r \<longrightarrow>
               fst (graph_post w endpoint payload token log) = Inr (JObj d))
          \<and> (http w log (delete_request endpoint token) = Reply r \<longrightarrow>
               fst (graph_delete w endpoint token log) = Inr (JObj d)))"
  using assms
  by (simp add: graph_get_run graph_post_run graph_delete_run response_json_def
      error_or_data_error_object error_or_data_no_error)

theorem remote_error_normalised_witness:
  "json_loads error_world (body_text error_reply) =
     Inr (JObj [(''error'',
       JObj [(''message'', JStr ''Invalid OAuth access token.''), (''code'', JNum 190)])])
   \<and> status_code error_reply = 400
   \<and> http error_world [] (get_request ''me'' [] (JStr ''UT'')) = Reply error_reply
   \<and> http error_world [] (post_request ''me'' [] (JStr ''UT'')) = Reply error_reply
   \<and> http error_world [] (delete_request ''me'' (JStr ''UT'')) = Reply error_reply
   \<and> fst (graph_get error_world ''me'' [] (JStr ''UT'') []) =
       Inr (JObj [(''error'', JStr ''Invalid OAuth access token.'')])
   \<and> fst (graph_post error_world ''me'' [] (JStr ''UT'') []) =
       Inr (JObj [(''error'', JStr ''Invalid OAuth access token.'')])
   \<and> fst (graph_delete error_world ''me'' (JStr ''UT'') []) =
       Inr (JObj [(''error'', JStr ''Invalid OAuth access token.'')])"
proof -
  have b: "json_loads error_world (body_text error_reply) =
     Inr (JObj [(''error'',
       JObj [(''message'', JStr ''Invalid OAuth access token.''), (''code'', JNum 190)])])"
    by code_simp
  have h: "http error_world log req = Reply error_reply" for log req
    by (simp add: error_world_def)
  show ?thesis
    using remote_error_normalised [OF b, of
        "[(''message'', JStr ''Invalid OAuth access token.''), (''code'', JNum 190)]"
        "[]" "''me''" "[]" "JStr ''UT''" "[]"] b h
    by (simp add: error_result_def error_reply_def)
qed

text \<open>
  Claim C7 as stated fails for a body that decodes to a scalar: it has no \<open>error\<close> key,
  yet it is not returned: the test \<open>"error" in data\<close> raises TypeError. Here the service
  answers \<open>true\<close>.
\<close>

theorem scalar_body_counterexample:
  "response_json scalar_world \<lparr>status_code = 200, status_error = [], body_text = json_dumps (JBool True)\<rparr>
     = Inr (JBool True)
   \<and> http scalar_world [] (get_request ''me'' [] (JStr ''UT''))
       = Reply \<lparr>status_code = 200, status_error = [], body_text = json_dumps (JBool True)\<rparr>
   \<and> fst (graph_get scalar_world ''me'' [] (JStr ''UT'') []) =
       Inl (Exn TypeError (''argument of type '' @ [CHR 0x27] @ ''bool'' @ [CHR 0x27] @ '' is not iterable''))"
  by code_simp

section \<open>Parameters of the collection listings\<close>

lemma upper_all: "upper ''all'' = ''ALL''"
  by code_simp

lemma key_eq_JStr: "key_eq k (JStr s) \<longleftrightarrow> k = JStr s"
  by (cases k) auto

lemma dict_get_set_other:
  "s \<noteq> s' \<Longrightarrow> dict_get (dict_set d (JStr s) v) (JStr s') = dict_get d (JStr s')"
  by (induction d) (auto simp: key_eq_JStr)

lemma user_op_run:
  "io_bind (io_lift (Inr t))
     (\<lambda>token. io_bind (graph_get w ep ps (JStr token)) (\<lambda>data. io_return (fmt data))) log =
     (map_sum id fmt (fst (graph_get w ep ps (JStr t) log)), log @ [get_request ep ps (JStr t)])"
  by (simp add: io_bind_def io_lift_def io_return_def graph_get_run
      split: http_outcome.splits sum.splits)

lemma page_op_run:
  "page_token w pid log = (Inr tok, log') \<Longrightarrow>
   io_bind (page_token w pid)
     (\<lambda>token. io_bind (graph_get w ep ps token) (\<lambda>data. io_return (fmt data))) log =
     (map_sum id fmt (fst (graph_get w ep ps tok log')), log' @ [get_request ep ps tok])"
  by (simp add: io_bind_def io_return_def graph_get_run
      split: http_outcome.splits sum.splits)

lemma sends_limit_get:
  "dict_get ps (JStr ''limit'') = Some (JStr (str_int v)) \<Longrightarrow>
   sends_limit (r, before @ [get_request ep ps tok]) before v"
  by (simp add: sends_limit_def limit_param_def sent_params_def get_request_def dict_get_set_other)

lemma filter_dict_set_other:
  "s \<noteq> s' \<Longrightarrow>
   filter (\<lambda>kv. fst kv = JStr s') (dict_set d (JStr s) v) = filter (\<lambda>kv. fst kv = JStr s') d"
  by (induction d) (auto simp: key_eq_JStr)

lemma sends_filtering_get:
  "map snd (filter (\<lambda>kv. fst kv = JStr ''filtering'') ps) = vs \<Longrightarrow>
   sends_filtering (r, before @ [get_request ep ps tok]) before vs"
  by (simp add: sends_filtering_def filtering_values_def sent_params_def get_request_def
      filter_dict_set_other)

lemma page_posts_limit:
  "page_token w page_id log = (Inr tok, log') \<Longrightarrow>
   sends_limit (meta_get_page_posts w page_id n log) log' (clamp_limit 100 n)"
  by (simp add: meta_get_page_posts_def page_op_run sends_limit_get clamp_limit_def)

lemma ad_campaigns_limit:
  "user_token w = Inr t \<Longrightarrow>
   sends_limit (meta_get_ad_campaigns w acct status n log) log (clamp_limit 100 n)"
  by (simp add: meta_get_ad_campaigns_def Let_def user_op_run sends_limit_get clamp_limit_def)

lemma ad_adsets_limit:
  "user_token w = Inr t \<Longrightarrow>
   sends_limit (meta_get_ad_adsets w acct campaign_id status n log) log (clamp_limit 100 n)"
  by (simp add: meta_get_ad_adsets_def Let_def user_op_run sends_limit_get clamp_limit_def
      split: option.splits)

lemma ads_limit:
  "user_token w = Inr t \<Longrightarrow>
   sends_limit (meta_get_ads w acct campaign_id adset_id status n log) log (clamp_limit 100 n)"
  by (simp add: meta_get_ads_def Let_def user_op_run sends_limit_get clamp_limit_def
      split: option.splits)

lemma ad_campaigns_filtering:
  "user_token w = Inr t \<Longrightarrow>
   sends_filtering (meta_get_ad_campaigns w acct status n log) log
     (encoded_filter (status_clauses status))"
  by (simp add: meta_get_ad_campaigns_def Let_def user_op_run sends_filtering_get
      encoded_filter_def status_clauses_def status_clause_def is_all_def upper_all)

lemma ad_adsets_filtering:
  "user_token w = Inr t \<Longrightarrow>
   sends_filtering (meta_get_ad_adsets w acct campaign_id status n log) log
     (encoded_filter (status_clauses status @ identity_clauses ''campaign.id'' campaign_id))"
  by (cases campaign_id)
     (simp_all add: meta_get_ad_adsets_def Let_def user_op_run sends_filtering_get
      encoded_filter_def status_clauses_def status_clause_def equal_clause_def is_all_def upper_all)

lemma ads_filtering:
  "user_token w = Inr t \<Longrightarrow>
   sends_filtering (meta_get_ads w acct campaign_id adset_id status n log) log
     (encoded_filter (status_clauses status @ identity_clauses ''campaign.id'' campaign_id
        @ identity_clauses ''adset.id'' adset_id))"
  by (cases campaign_id; cases adset_id)
     (simp_all add: meta_get_ads_def Let_def user_op_run sends_filtering_get
      encoded_filter_def status_clauses_def status_clause_def equal_clause_def is_all_def upper_all)

lemma post_comments_limit:
  "page_token w page_id log = (Inr tok, log') \<Longrightarrow>
   sends_limit (meta_get_post_comments w post_id page_id n log) log' (clamp_limit 100 n)"
  by (simp add: meta_get_post_comments_def page_op_run sends_limit_get clamp_limit_def)

lemma ad_comments_limit:
  "page_token w page_id log = (Inr tok, log') \<Longrightarrow>
   sends_limit (meta_get_ad_comments w story_id page_id n filter_type log) log' (clamp_limit 100 n)"
  by (simp add: meta_get_ad_comments_def page_op_run sends_limit_get clamp_limit_def)

lemma ig_media_limit:
  "page_token w page_id log = (Inr tok, log') \<Longrightarrow>
   sends_limit (meta_get_ig_media w ig_account_id page_id n log) log' (clamp_limit 50 n)"
  by (simp add: meta_get_ig_media_def page_op_run sends_limit_get clamp_limit_def)

lemma ig_comments_limit:
  "page_token w page_id log = (Inr tok, log') \<Longrightarrow>
   sends_limit (meta_get_ig_comments w media_id page_id n log) log' (clamp_limit 100 n)"
  by (simp add: meta_get_ig_comments_def page_op_run sends_limit_get clamp_limit_def)

lemma conversations_limit:
  "page_token w page_id log = (Inr tok, log') \<Longrightarrow>
   sends_limit (meta_get_conversations w page_id n log) log' (clamp_limit 50 n)"
  by (simp add: meta_get_conversations_def page_op_run sends_limit_get clamp_limit_def)

lemma conversation_messages_limit:
  "page_token w page_id log = (Inr tok, log') \<Longrightarrow>
   sends_limit (meta_get_conversation_messages w conversation_id page_id n log) log'
     (clamp_limit 100 n)"
  by (simp add: meta_get_conversation_messages_def page_op_run sends_limit_get clamp_limit_def)

lemma lead_data_limit:
  "page_token w page_id log = (Inr tok, log') \<Longrightarrow>
   sends_limit (meta_get_lead_data w form_id page_id n log) log' (clamp_limit 100 n)"
  by (simp add: meta_get_lead_data_def page_op_run sends_limit_get clamp_limit_def)

text \<open>
  Claim C2, as amended. For every integer limit \<open>n\<close> given to an operation that accepts
  a result-count limit, once the operation's credential is resolved the operation sends
  one request whose \<open>limit\<close> is \<open>str(min(max(n, 1), ceiling))\<close>; the ceiling is 50 for the
  Instagram media listing and for the conversations listing and 100 for the other
  listings. The clamped value lies between 1 and the ceiling, and no value of \<open>n\<close> is
  rejected.
\<close>

theorem limits_clamped:
  "(page_token w page_id log = (Inr tok, log') \<longrightarrow>
      sends_limit (meta_get_ig_media w ig_account_id page_id n log) log' (clamp_limit 50 n)
      \<and> sends_limit (meta_get_conversations w page_id n log) log' (clamp_limit 50 n)
      \<and> sends_limit (meta_get_page_posts w page_id n log) log' (clamp_limit 100 n)
      \<and> sends_limit (meta_get_post_comments w post_id page_id n log) log' (clamp_limit 100 n)
      \<and> sends_limit (meta_get_ad_comments w story_id page_id n filter_type log) log'
           (clamp_limit 100 n)
      \<and> sends_limit (meta_get_ig_comments w media_id page_id n log) log' (clamp_limit 100 n)
      \<and> sends_limit (meta_get_conversation_messages w conversation_id page_id n log) log'
           (clamp_limit 100 n)
      \<and> sends_limit (meta_get_lead_data w form_id page_id n log) log' (clamp_limit 100 n))
   \<and> (user_token w = Inr t \<longrightarrow>
        sends_limit (meta_get_ad_campaigns w acct status n log) log (clamp_limit 100 n)
        \<and> sends_limit (meta_get_ad_adsets w acct campaign_id status n log) log (clamp_limit 100 n)
        \<and> sends_limit (meta_get_ads w acct campaign_id adset_id status n log) log
             (clamp_limit 100 n))
   \<and> clamp_limit 50 n = min (max n 1) 50 \<and> 1 \<le> clamp_limit 50 n \<and> clamp_limit 50 n \<le> 50
   \<and> clamp_limit 100 n = min (max n 1) 100 \<and> 1 \<le> clamp_limit 100 n \<and> clamp_limit 100 n \<le> 100"
proof (intro conjI impI)
  assume pt: "page_token w page_id log = (Inr tok, log')"
  show "sends_limit (meta_get_ig_media w ig_account_id page_id n log) log' (clamp_limit 50 n)"
    using pt by (rule ig_media_limit)
  show "sends_limit (meta_get_conversations w page_id n log) log' (clamp_limit 50 n)"
    using pt by (rule conversations_limit)
  show "sends_limit (meta_get_page_posts w page_id n log) log' (clamp_limit 100 n)"
    using pt by (rule page_posts_limit)
  show "sends_limit (meta_get_post_comments w post_id page_id n log) log' (clamp_limit 100 n)"
    using pt by (rule post_comments_limit)
  show "sends_limit (meta_get_ad_comments w story_id page_id n filter_type log) log'
      (clamp_limit 100 n)"
    using pt by (rule ad_comments_limit)
  show "sends_limit (meta_get_ig_comments w media_id page_id n log) log' (clamp_limit 100 n)"
    using pt by (rule ig_comments_limit)
  show "sends_limit (meta_get_conversation_messages w conversation_id page_id n log) log'
      (clamp_limit 100 n)"
    using pt by (rule conversation_messages_limit)
  show "sends_limit (meta_get_lead_data w form_id page_id n log) log' (clamp_limit 100 n)"
    using pt by (rule lead_data_limit)
next
  assume ut: "user_token w = Inr t"
  show "sends_limit (meta_get_ad_campaigns w acct status n log) log (clamp_limit 100 n)"
    using ut by (rule ad_campaigns_limit)
  show "sends_limit (meta_get_ad_adsets w acct campaign_id status n log) log (clamp_limit 100 n)"
    using ut by (rule ad_adsets_limit)
  show "sends_limit (meta_get_ads w acct campaign_id adset_id status n log) log (clamp_limit 100 n)"
    using ut by (rule ads_limit)
qed (simp_all add: clamp_limit_def)

theorem limits_clamped_witness:
  "page_token demo_world ''123'' [] = (Inr (JStr ''PT''), [])
   \<and> user_token demo_world = Inr ''UT''
   \<and> sends_limit (meta_get_ig_media demo_world ''ig1'' ''123'' 1000 []) [] (clamp_limit 50 1000)
   \<and> sends_limit (meta_get_conversations demo_world ''123'' 1000 []) [] (clamp_limit 50 1000)
   \<and> sends_limit (meta_get_page_posts demo_world ''123'' 1000 []) [] (clamp_limit 100 1000)
   \<and> sends_limit (meta_get_ads demo_world ''act_1'' None None ''ACTIVE'' 1000 []) []
        (clamp_limit 100 1000)
   \<and> clamp_limit 50 1000 = 50 \<and> clamp_limit 100 1000 = 100"
proof -
  have pt: "page_token demo_world ''123'' [] = (Inr (JStr ''PT''), [])"
    by code_simp
  have ut: "user_token demo_world = Inr ''UT''"
    by code_simp
  show ?thesis
    using limits_clamped [where w = demo_world and page_id = "''123''" and log = "[]"
        and tok = "JStr ''PT''" and log' = "[]" and t = "''UT''" and n = 1000
        and ig_account_id = "''ig1''" and acct = "''act_1''" and status = "''ACTIVE''"
        and campaign_id = None and adset_id = None and post_id = "''123_1''"
        and story_id = "''123_2''" and filter_type = "''toplevel''" and media_id = "''m1''"
        and conversation_id = "''t1''" and form_id = "''f1''"]
      pt ut
    by (simp add: clamp_limit_def)
qed

text \<open>
  Claim C2 as stated fails for the conversations listing, whose ceiling is 50 and not
  100: with a limit of 75 it sends 50, where \<open>min(max(75, 1), 100)\<close> is 75.
\<close>

theorem conversations_ceiling_counterexample:
  "page_token demo_world ''123'' [] = (Inr (JStr ''PT''), [])
   \<and> sends_limit (meta_get_conversations demo_world ''123'' 75 []) [] 50
   \<and> \<not> sends_limit (meta_get_conversations demo_world ''123'' 75 []) [] (min (max 75 1) 100)"
  by code_simp

text \<open>
  Claim C4. In the ad-set and ads listings every supplied (non-empty) \<open>campaign_id\<close> and
  \<open>adset_id\<close> adds an \<open>EQUAL\<close> clause after the status clause, the campaign clause
  before the ad-set clause; the clauses go out together as one JSON array under one
  \<open>filtering\<close> parameter, also when there is no status clause; with no clause at all
  there is no \<open>filtering\<close> parameter.
\<close>

theorem identity_filters_appended:
  assumes "user_token w = Inr t"
  shows
    "sends_filtering (meta_get_ad_adsets w acct campaign_id status n log) log
       (encoded_filter (status_clauses status @ identity_clauses ''campaign.id'' campaign_id))
     \<and> sends_filtering (meta_get_ads w acct campaign_id adset_id status n log) log
         (encoded_filter (status_clauses status @ identity_clauses ''campaign.id'' campaign_id
            @ identity_clauses ''adset.id'' adset_id))"
  using assms by (simp add: ad_adsets_filtering ads_filtering)

theorem identity_filters_appended_witness:
  "user_token demo_world = Inr ''UT''
   \<and> sends_filtering (meta_get_ad_adsets demo_world ''act_1'' (Some ''c1'') ''all'' 25 []) []
       [JStr (json_dumps (JArr [equal_clause ''campaign.id'' ''c1'']))]
   \<and> sends_filtering (meta_get_ads demo_world ''act_1'' (Some ''c1'') (Some ''a1'') ''paused'' 25 []) []
       [JStr (json_dumps (JArr [status_clause ''paused'', equal_clause ''campaign.id'' ''c1'',
          equal_clause ''adset.id'' ''a1'']))]"
proof -
  have ut: "user_token demo_world = Inr ''UT''"
    by code_simp
  have a: "is_all ''all''" and p: "\<not> is_all ''paused''"
    by code_simp+
  show ?thesis
    using identity_filters_appended [OF ut, of "''act_1''" "Some ''c1''" "''all''" 25 "[]" "Some ''a1''"]
      identity_filters_appended [OF ut, of "''act_1''" "Some ''c1''" "''paused''" 25 "[]" "Some ''a1''"]
      ut a p
    by (simp add: encoded_filter_def status_clauses_def)
qed

text \<open>
  Claim C3, as amended. When the status filter is \<open>all\<close> in any casing, the campaigns
  listing sends no \<open>filtering\<close> parameter, and the ad-set and ads listings send none
  provided no campaign or ad-set id is supplied. For any other status the \<open>filtering\<close>
  parameter is the JSON text of an array whose first element is the clause
  \<open>{field: "effective_status", operator: "IN", value: [STATUS]}\<close> with the status in
  upper case.
\<close>

theorem status_filter_encoding:
  assumes "user_token w = Inr t"
  shows
    "(is_all status \<longrightarrow>
        sends_filtering (meta_get_ad_campaigns w acct status n log) log []
        \<and> (\<not> supplied campaign_id \<longrightarrow>
             sends_filtering (meta_get_ad_adsets w acct campaign_id status n log) log [])
        \<and> (\<not> supplied campaign_id \<and> \<not> supplied adset_id \<longrightarrow>
             sends_filtering (meta_get_ads w acct campaign_id adset_id status n log) log []))
     \<and> (\<not> is_all status \<longrightarrow>
          sends_filtering (meta_get_ad_campaigns w acct status n log) log
            [JStr (json_dumps (JArr [status_clause status]))]
          \<and> sends_filtering (meta_get_ad_adsets w acct campaign_id status n log) log
              [JStr (json_dumps (JArr (status_clause status
                 # identity_clauses ''campaign.id'' campaign_id)))]
          \<and> sends_filtering (meta_get_ads w acct campaign_id adset_id status n log) log
              [JStr (json_dumps (JArr (status_clause status
                 # identity_clauses ''campaign.id'' campaign_id
                 @ identity_clauses ''adset.id'' adset_id)))])"
proof -
  note f = ad_campaigns_filtering [OF assms, of acct status n log]
    ad_adsets_filtering [OF assms, of acct campaign_id status n log]
    ads_filtering [OF assms, of acct campaign_id adset_id status n log]
  have none: "\<not> supplied x \<Longrightarrow> identity_clauses field x = []" for field x
    by (cases x) simp_all
  show ?thesis
    using f by (auto simp: encoded_filter_def status_clauses_def none)
qed

theorem status_filter_encoding_witness:
  "user_token demo_world = Inr ''UT''
   \<and> is_all ''All'' \<and> \<not> supplied None
   \<and> sends_filtering (meta_get_ad_campaigns demo_world ''act_1'' ''All'' 25 []) [] []
   \<and> sends_filtering (meta_get_ad_adsets demo_world ''act_1'' None ''All'' 25 []) [] []
   \<and> sends_filtering (meta_get_ads demo_world ''act_1'' None None ''All'' 25 []) [] []
   \<and> \<not> is_all ''active''
   \<and> sends_filtering (meta_get_ad_campaigns demo_world ''act_1'' ''active'' 25 []) []
       [JStr (json_dumps (JArr [status_clause ''active'']))]
   \<and> sends_filtering (meta_get_ads demo_world ''act_1'' (Some ''c1'') None ''active'' 25 []) []
       [JStr (json_dumps (JArr [status_clause ''active'', equal_clause ''campaign.id'' ''c1'']))]"
proof -
  have ut: "user_token demo_world = Inr ''UT''"
    by code_simp
  have a: "is_all ''All''" and p: "\<not> is_all ''active''"
    by code_simp+
  show ?thesis
    using status_filter_encoding [OF ut, of "''All''" "''act_1''" 25 "[]" None None]
      status_filter_encoding [OF ut, of "''active''" "''act_1''" 25 "[]" "Some ''c1''" None]
      ut a p
    by simp
qed

text \<open>
  Claim C3 as stated fails where an identity filter is supplied: the ad-set listing with
  the status \<open>all\<close> and a campaign id sends a \<open>filtering\<close> parameter, the array with
  the campaign clause alone.
\<close>

theorem identity_filter_with_all_counterexample:
  "is_all ''all''
   \<and> user_token demo_world = Inr ''UT''
   \<and> sends_filtering (meta_get_ad_adsets demo_world ''act_1'' (Some ''c1'') ''all'' 25 []) []
       [JStr (json_dumps (JArr [equal_clause ''campaign.id'' ''c1'']))]
   \<and> \<not> sends_filtering (meta_get_ad_adsets demo_world ''act_1'' (Some ''c1'') ''all'' 25 []) [] []"
  by code_simp

section \<open>Errors at the boundary of an operation\<close>

lemma io_lift_eq: "io_lift r log = (x, log') \<longleftrightarrow> r = x \<and> log = log'"
  by (auto simp: io_lift_def)

lemma map_sum_JStr_Inl: "map_sum id JStr r = Inl e \<longleftrightarrow> r = Inl e"
  by (cases r) simp_all

lemma map_sum_JStr_Inr: "map_sum id JStr r = Inr tok \<longleftrightarrow> (\<exists>t. r = Inr t \<and> tok = JStr t)"
  by (cases r) auto

lemmas op_defs =
  meta_list_pages_def meta_get_page_info_def meta_get_page_posts_def meta_create_page_post_def
  meta_delete_page_post_def meta_get_post_comments_def meta_reply_to_comment_def
  meta_delete_comment_def meta_like_comment_def meta_hide_comment_def meta_get_ad_accounts_def
  meta_get_ad_campaigns_def meta_get_ad_adsets_def meta_get_ads_def meta_get_ad_creative_def
  meta_get_ad_comments_def meta_reply_to_ad_comment_def meta_hide_ad_comment_def
  meta_delete_ad_comment_def meta_get_ig_accounts_def meta_get_ig_media_def
  meta_get_ig_comments_def meta_reply_ig_comment_def meta_delete_ig_comment_def
  meta_get_conversations_def meta_get_conversation_messages_def meta_send_message_def
  meta_get_lead_forms_def meta_get_lead_data_def meta_get_page_insights_def
  meta_get_post_insights_def meta_get_page_subscriptions_def meta_subscribe_page_webhooks_def

lemma credential_error_escapes:
  assumes "principal_of c = Some p" and "resolve w p log = (Inl e, log')"
  shows "invoke w c log = (Inl e, log')"
proof (cases "fixed_call c")
  case True
  with assms show ?thesis
    by (cases c)
       (auto simp: op_defs Let_def io_lift_eq map_sum_JStr_Inl io_bind_lift_Inl io_bind_Inl)
next
  case False
  then show ?thesis
  proof (cases c)
    case (Debug_token tt)
    with assms show ?thesis
      by (auto simp: meta_debug_token_def io_lift_eq map_sum_JStr_Inl io_bind_Inl
          split: if_splits)
  next
    case (Graph_api_call ep m tt pid f ps b)
    with assms show ?thesis
      by (auto simp: meta_graph_api_call_def io_lift_eq map_sum_JStr_Inl io_bind_Inl
          io_bind_lift_Inl split: if_splits option.splits)
  qed simp_all
qed

lemma merged_extra_fields: "merged_extra w f None = Some (fields_params f)"
  by (simp add: merged_extra_def fields_params_def)

lemma snd_request_outcome: "snd (request_outcome w lg req k) = lg @ [req]"
  by (simp add: request_outcome_def)

lemma request_outcome_Failure:
  "http w lg req = Failure msg \<Longrightarrow>
   fst (request_outcome w lg req k) = Inl (Exn TransportError msg)"
  by (simp add: request_outcome_def)

lemma request_outcome_garbled:
  "http w lg req = Reply resp \<Longrightarrow> json_loads w (body_text resp) = Inl m \<Longrightarrow>
   fst (request_outcome w lg req k) = Inl (Exn JSONDecodeError m)"
  by (simp add: request_outcome_def response_json_def)

lemma get_then_fmt:
  "io_bind (graph_get w ep ps tok) (\<lambda>data. io_return (fmt data)) lg =
     request_outcome w lg (get_request ep ps tok) (\<lambda>data. map_sum id fmt (error_or_data data))"
  by (simp add: io_bind_def io_return_def graph_get_run request_outcome_def
      split: http_outcome.splits sum.splits)

lemma post_then_fmt:
  "io_bind (graph_post w ep ps tok) (\<lambda>data. io_return (fmt data)) lg =
     request_outcome w lg (post_request ep ps tok) (\<lambda>data. map_sum id fmt (error_or_data data))"
  by (simp add: io_bind_def io_return_def graph_post_run request_outcome_def
      split: http_outcome.splits sum.splits)

lemma delete_then_fmt:
  "io_bind (graph_delete w ep tok) (\<lambda>data. io_return (fmt data)) lg =
     request_outcome w lg (delete_request ep tok) (\<lambda>data. map_sum id fmt (error_or_data data))"
  by (simp add: io_bind_def io_return_def graph_delete_run request_outcome_def
      split: http_outcome.splits sum.splits)

lemma send_then_fmt:
  "io_bind (send w req)
     (\<lambda>resp. io_bind (io_lift (response_json w resp)) (\<lambda>data. io_return (fmt data))) lg =
     request_outcome w lg req (\<lambda>data. Inr (fmt data))"
  by (simp add: io_bind_def io_return_def io_lift_def send_def request_outcome_def
      split: http_outcome.splits sum.splits)

lemma io_bind_return: "io_bind (io_return x) f = f x"
  by (simp add: io_bind_def io_return_def)

lemma io_bind_raise: "io_bind (io_raise e) f lg = (Inl e, lg)"
  by (simp add: io_bind_def io_raise_def)

lemmas then_fmt = get_then_fmt post_then_fmt delete_then_fmt send_then_fmt

lemma fixed_call_run:
  assumes "fixed_call c" and "principal_of c = Some p" and "resolve w p log = (Inr tok, log')"
  shows "\<exists>req k. invoke w c log = request_outcome w log' req k"
  using assms
  apply (cases c)
  apply (auto simp: op_defs Let_def io_lift_eq map_sum_JStr_Inr io_bind_lift_Inr io_bind_Inr
      then_fmt)
  apply (rule exI, rule exI, rule refl)+
  done

lemma app_token_ValueError: "app_token w = Inl e \<Longrightarrow> is_ValueError e"
  by (auto simp: app_token_def Let_def split: if_splits)

lemma debug_token_run:
  assumes "principal_of (Debug_token tt) = Some p" and "resolve w p log = (Inr tok, log')"
  shows "meta_debug_token w tt log =
           (case app_token w of
              Inr a \<Rightarrow>
                request_outcome w log'
                  (get_request ''debug_token'' [(JStr ''input_token'', tok)] (JStr a))
                  (\<lambda>data. map_sum id fmt (error_or_data data))
            | Inl e \<Rightarrow>
                (case user_token w of
                   Inr u \<Rightarrow>
                     request_outcome w log'
                       (get_request ''debug_token'' [(JStr ''input_token'', tok)] (JStr u))
                       (\<lambda>data. map_sum id fmt (error_or_data data))
                 | Inl e' \<Rightarrow> (Inl e', log')))"
  using assms
  by (auto simp: meta_debug_token_def io_lift_eq map_sum_JStr_Inr io_bind_lift_Inr io_bind_Inr
      io_bind_return io_bind_lift_Inl then_fmt app_token_ValueError
      split: if_splits sum.splits)

lemma io_return_apply: "io_return x lg = (Inr x, lg)"
  by (simp add: io_return_def)

lemma io_raise_apply: "io_raise e lg = (Inl e, lg)"
  by (simp add: io_raise_def)

lemma raw_call_resolved:
  assumes "principal_of (Graph_api_call ep m tt pid f ps b) = Some p"
    and "resolve w p log = (Inr tok, log')"
  shows "meta_graph_api_call w ep m tt pid f ps b log = graph_api_params w ep m f ps b tok log'"
  using assms
  by (auto simp: meta_graph_api_call_def io_lift_eq map_sum_JStr_Inr io_bind_lift_Inr io_bind_Inr
      split: if_splits option.splits)

lemma dispatch_run:
  "graph_api_dispatch w ep m b extra tok lg =
     (if upper m = ''GET'' then
        request_outcome w lg (get_request ep extra tok)
          (\<lambda>data. map_sum id fmt (error_or_data data))
      else if upper m = ''POST'' then
        (case b of
           None \<Rightarrow>
             request_outcome w lg (post_request ep (dict_merge (dict_of_obj []) extra) tok)
               (\<lambda>data. map_sum id fmt (error_or_data data))
         | Some bs \<Rightarrow>
             if bs = [] then
               request_outcome w lg (post_request ep (dict_merge (dict_of_obj []) extra) tok)
                 (\<lambda>data. map_sum id fmt (error_or_data data))
             else
               (case json_loads w bs of
                  Inl msg \<Rightarrow> (Inr (error_document ''body must be valid JSON''), lg)
                | Inr j \<Rightarrow>
                    (case j of
                       JObj kvs \<Rightarrow>
                         request_outcome w lg
                           (post_request ep (dict_merge (dict_of_obj kvs) extra) tok)
                           (\<lambda>data. map_sum id fmt (error_or_data data))
                     | _ \<Rightarrow>
                         (Inl (Exn AttributeError
                            ([CHR 0x27] @ type_name j @ [CHR 0x27] @ '' object has no attribute ''
                             @ [CHR 0x27] @ ''update'' @ [CHR 0x27])), lg))))
      else if upper m = ''DELETE'' then
        request_outcome w lg (delete_request ep tok)
          (\<lambda>data. map_sum id fmt (error_or_data data))
      else
        (Inr (error_document (''Unsupported method: '' @ m @ ''. Use GET, POST, or DELETE.'')),
         lg))"
  by (simp add: graph_api_dispatch_def Let_def then_fmt io_return_apply io_raise_apply
      error_document_def split: option.splits sum.splits json.splits)

lemma params_run:
  "graph_api_params w ep m f ps b tok lg =
     (case ps of
        None \<Rightarrow> graph_api_dispatch w ep m b (fields_params f) tok lg
      | Some s \<Rightarrow>
          if s = [] then graph_api_dispatch w ep m b (fields_params f) tok lg
          else
            (case json_loads w s of
               Inl msg \<Rightarrow> (Inr (error_document ''params must be valid JSON''), lg)
             | Inr j \<Rightarrow>
                 (case dict_update (fields_params f) j of
                    Inl e \<Rightarrow> (Inl e, lg)
                  | Inr d \<Rightarrow> graph_api_dispatch w ep m b d tok lg)))"
  by (simp add: graph_api_params_def Let_def fields_params_def io_return_apply io_raise_apply
      error_document_def split: option.splits sum.splits)

lemma params_merged:
  "merged_extra w f ps = Some extra \<Longrightarrow>
   graph_api_params w ep m f ps b tok lg = graph_api_dispatch w ep m b extra tok lg"
  by (auto simp: params_run merged_extra_def split: option.splits sum.splits if_splits)

lemma dispatch_cases:
  "(\<exists>req k. graph_api_dispatch w ep m b extra tok lg = request_outcome w lg req k)
   \<or> snd (graph_api_dispatch w ep m b extra tok lg) = lg"
  by (auto simp: dispatch_run split: option.splits sum.splits json.splits)

lemma params_cases:
  "(\<exists>req k. graph_api_params w ep m f ps b tok lg = request_outcome w lg req k)
   \<or> snd (graph_api_params w ep m f ps b tok lg) = lg"
  using dispatch_cases [of w ep m b _ tok lg]
  by (auto simp: params_run split: option.splits sum.splits)

lemma debug_cases:
  assumes "principal_of (Debug_token tt) = Some p" and "resolve w p log = (Inr tok, log')"
  shows "(\<exists>req k. meta_debug_token w tt log = request_outcome w log' req k)
         \<or> snd (meta_debug_token w tt log) = log'"
  by (auto simp: debug_token_run [OF assms] split: sum.splits)

lemma invoke_cases:
  assumes p: "principal_of c = Some p" and r: "resolve w p log = (Inr tok, log')"
  shows "(\<exists>req k. invoke w c log = request_outcome w log' req k) \<or> snd (invoke w c log) = log'"
proof (cases "fixed_call c")
  case True
  then show ?thesis
    using fixed_call_run [OF True p r] by blast
next
  case False
  then show ?thesis
  proof (cases c)
    case (Debug_token tt)
    then show ?thesis
      using debug_cases [of tt p w log tok log'] p r by simp
  next
    case (Graph_api_call ep m tt pid f ps b)
    then show ?thesis
      using params_cases [of w ep m f ps b tok log'] p r
      by (simp add: raw_call_resolved)
  qed simp_all
qed

lemma own_request_failure:
  assumes p: "principal_of c = Some p" and r: "resolve w p log = (Inr tok, log')"
    and s: "snd (invoke w c log) = log' @ [req]"
  shows "(http w log' req = Failure msg \<longrightarrow>
            fst (invoke w c log) = Inl (Exn TransportError msg))
         \<and> (http w log' req = Reply resp \<and> json_loads w (body_text resp) = Inl m \<longrightarrow>
              fst (invoke w c log) = Inl (Exn JSONDecodeError m))"
proof -
  from invoke_cases [OF p r] s obtain req' k
    where run: "invoke w c log = request_outcome w log' req' k"
    by auto
  with s have "req' = req"
    by (simp add: snd_request_outcome)
  with run show ?thesis
    by (simp add: request_outcome_Failure request_outcome_garbled)
qed

lemma debug_token_fallback:
  assumes p: "principal_of (Debug_token dt) = Some p" and r: "resolve w p log = (Inr tok, log')"
  shows "(app_token w = Inr a \<longrightarrow>
            snd (invoke w (Debug_token dt) log) =
              log' @ [get_request ''debug_token'' [(JStr ''input_token'', tok)] (JStr a)])
         \<and> (app_token w = Inl e1 \<longrightarrow>
              (user_token w = Inr u \<longrightarrow>
                 snd (invoke w (Debug_token dt) log) =
                   log' @ [get_request ''debug_token'' [(JStr ''input_token'', tok)] (JStr u)])
              \<and> (user_token w = Inl e2 \<longrightarrow> invoke w (Debug_token dt) log = (Inl e2, log')))"
  by (simp add: debug_token_run [OF p r] snd_request_outcome)

lemma raw_call_checks:
  assumes p: "principal_of (Graph_api_call ep meth tt pid f ps b) = Some p"
    and r: "resolve w p log = (Inr tok, log')"
  shows "(ps = Some s \<and> s \<noteq> [] \<longrightarrow>
            (json_loads w s = Inl m \<longrightarrow>
               invoke w (Graph_api_call ep meth tt pid f ps b) log =
                 (Inr (error_document ''params must be valid JSON''), log'))
            \<and> (json_loads w s = Inr j \<and> dict_update (fields_params f) j = Inl e3 \<longrightarrow>
                 invoke w (Graph_api_call ep meth tt pid f ps b) log = (Inl e3, log')))
         \<and> (merged_extra w f ps = Some extra \<longrightarrow>
              (upper meth \<noteq> ''GET'' \<and> upper meth \<noteq> ''POST'' \<and> upper meth \<noteq> ''DELETE'' \<longrightarrow>
                 invoke w (Graph_api_call ep meth tt pid f ps b) log =
                   (Inr (error_document
                      (''Unsupported method: '' @ meth @ ''. Use GET, POST, or DELETE.'')), log'))
              \<and> (upper meth = ''POST'' \<and> b = Some bs \<and> bs \<noteq> [] \<longrightarrow>
                   (json_loads w bs = Inl m \<longrightarrow>
                      invoke w (Graph_api_call ep meth tt pid f ps b) log =
                        (Inr (error_document ''body must be valid JSON''), log'))
                   \<and> (json_loads w bs = Inr j \<and> \<not> is_object j \<longrightarrow>
                        invoke w (Graph_api_call ep meth tt pid f ps b) log =
                          (Inl (Exn AttributeError
                             ([CHR 0x27] @ type_name j @ [CHR 0x27]
                              @ '' object has no attribute '' @ [CHR 0x27] @ ''update''
                              @ [CHR 0x27])), log'))))"
proof -
  have "merged_extra w f ps = Some extra \<Longrightarrow>
      invoke w (Graph_api_call ep meth tt pid f ps b) log =
        graph_api_dispatch w ep meth b extra tok log'"
    by (simp add: raw_call_resolved [OF p r] params_merged)
  moreover have "invoke w (Graph_api_call ep meth tt pid f ps b) log =
      graph_api_params w ep meth f ps b tok log'"
    by (simp add: raw_call_resolved [OF p r])
  ultimately show ?thesis
    by (cases j) (auto simp: params_run dispatch_run)
qed

text \<open>
  Claim C1, as amended. No exposed operation catches an error of the resolution of its
  own credential (a missing user credential, a missing app id or secret, a failed page
  token exchange): the call ends with that exception, at the log the resolution left.
  Once that credential is resolved, the operations with one credential and one request
  do issue their request; and for every operation, whenever its run adds exactly one
  request to the log the resolution left, a transport failure of that request and a
  reply to it whose body does not decode end the call with the exception of the
  failure. Only the operation's own request is required to fail, so this covers a page
  token that an exchange request has just fetched. One configuration error is caught:
  the token-debug operation looks the app credential up a second time, and when that
  lookup fails it goes on with the user credential, which its request then carries;
  there only a missing user credential ends the call. The raw call returns the uniform
  document \<open>{error: message}\<close> for what it checks itself: a \<open>params\<close> blob that is not
  valid JSON, a method it does not support, and a \<open>body\<close> blob of a POST that is not
  valid JSON. A \<open>params\<close> blob that decodes to something that cannot be merged into a
  dictionary, and a \<open>body\<close> blob of a POST that decodes to something other than an
  object, end the call with an exception.
\<close>

theorem errors_at_the_operation_boundary:
  assumes "principal_of c = Some p"
  shows
    "(resolve w p log = (Inl e, log') \<longrightarrow> invoke w c log = (Inl e, log'))
     \<and> (resolve w p log = (Inr tok, log') \<longrightarrow>
          (fixed_call c \<longrightarrow> (\<exists>req'. snd (invoke w c log) = log' @ [req']))
          \<and> (snd (invoke w c log) = log' @ [req] \<longrightarrow>
               (http w log' req = Failure msg \<longrightarrow>
                  fst (invoke w c log) = Inl (Exn TransportError msg))
               \<and> (http w log' req = Reply resp \<and> json_loads w (body_text resp) = Inl m \<longrightarrow>
                    fst (invoke w c log) = Inl (Exn JSONDecodeError m)))
          \<and> (c = Debug_token dt \<longrightarrow>
               (app_token w = Inr a \<longrightarrow>
                  snd (invoke w c log) =
                    log' @ [get_request ''debug_token'' [(JStr ''input_token'', tok)] (JStr a)])
               \<and> (app_token w = Inl e1 \<longrightarrow>
                    (user_token w = Inr u \<longrightarrow>
                       snd (invoke w c log) =
                         log' @ [get_request ''debug_token'' [(JStr ''input_token'', tok)]
                                   (JStr u)])
                    \<and> (user_token w = Inl e2 \<longrightarrow> invoke w c log = (Inl e2, log'))))
          \<and> (c = Graph_api_call ep meth tt pid f ps b \<longrightarrow>
               (ps = Some s \<and> s \<noteq> [] \<longrightarrow>
                  (json_loads w s = Inl m \<longrightarrow>
                     invoke w c log = (Inr (error_document ''params must be valid JSON''), log'))
                  \<and> (json_loads w s = Inr j \<and> dict_update (fields_params f) j = Inl e3 \<longrightarrow>
                       invoke w c log = (Inl e3, log')))
               \<and> (merged_extra w f ps = Some extra \<longrightarrow>
                    (upper meth \<noteq> ''GET'' \<and> upper meth \<noteq> ''POST'' \<and> upper meth \<noteq> ''DELETE'' \<longrightarrow>
                       invoke w c log =
                         (Inr (error_document
                            (''Unsupported method: '' @ meth @ ''. Use GET, POST, or DELETE.'')),
                          log'))
                    \<and> (upper meth = ''POST'' \<and> b = Some bs \<and> bs \<noteq> [] \<longrightarrow>
                         (json_loads w bs = Inl m \<longrightarrow>
                            invoke w c log =
                              (Inr (error_document ''body must be valid JSON''), log'))
                         \<and> (json_loads w bs = Inr j \<and> \<not> is_object j \<longrightarrow>
                              invoke w c log =
                                (Inl (Exn AttributeError
                                   ([CHR 0x27] @ type_name j @ [CHR 0x27]
                                    @ '' object has no attribute '' @ [CHR 0x27] @ ''update''
                                    @ [CHR 0x27])), log'))))))"
proof -
  have cred: "invoke w c log = (Inl e, log')" if "resolve w p log = (Inl e, log')"
    using assms that by (rule credential_error_escapes)
  have one: "\<exists>req'. snd (invoke w c log) = log' @ [req']"
    if r: "resolve w p log = (Inr tok, log')" and f: "fixed_call c"
    using fixed_call_run [OF f assms r] by (auto simp: snd_request_outcome)
  have own: "(http w log' req = Failure msg \<longrightarrow>
        fst (invoke w c log) = Inl (Exn TransportError msg))
      \<and> (http w log' req = Reply resp \<and> json_loads w (body_text resp) = Inl m \<longrightarrow>
           fst (invoke w c log) = Inl (Exn JSONDecodeError m))"
    if r: "resolve w p log = (Inr tok, log')" and s: "snd (invoke w c log) = log' @ [req]"
    using assms r s by (rule own_request_failure)
  have debug: "(app_token w = Inr a \<longrightarrow>
        snd (invoke w c log) =
          log' @ [get_request ''debug_token'' [(JStr ''input_token'', tok)] (JStr a)])
      \<and> (app_token w = Inl e1 \<longrightarrow>
           (user_token w = Inr u \<longrightarrow>
              snd (invoke w c log) =
                log' @ [get_request ''debug_token'' [(JStr ''input_token'', tok)] (JStr u)])
           \<and> (user_token w = Inl e2 \<longrightarrow> invoke w c log = (Inl e2, log')))"
    if r: "resolve w p log = (Inr tok, log')" and c: "c = Debug_token dt"
  proof -
    have p': "principal_of (Debug_token dt) = Some p"
      using assms unfolding c .
    show ?thesis
      unfolding c by (rule debug_token_fallback [OF p' r])
  qed
  have raw: "(ps = Some s \<and> s \<noteq> [] \<longrightarrow>
        (json_loads w s = Inl m \<longrightarrow>
           invoke w c log = (Inr (error_document ''params must be valid JSON''), log'))
        \<and> (json_loads w s = Inr j \<and> dict_update (fields_params f) j = Inl e3 \<longrightarrow>
             invoke w c log = (Inl e3, log')))
      \<and> (merged_extra w f ps = Some extra \<longrightarrow>
           (upper meth \<noteq> ''GET'' \<and> upper meth \<noteq> ''POST'' \<and> upper meth \<noteq> ''DELETE'' \<longrightarrow>
              invoke w c log =
                (Inr (error_document
                   (''Unsupported method: '' @ meth @ ''. Use GET, POST, or DELETE.'')),
                 log'))
           \<and> (upper meth = ''POST'' \<and> b = Some bs \<and> bs \<noteq> [] \<longrightarrow>
                (json_loads w bs = Inl m \<longrightarrow>
                   invoke w c log =
                     (Inr (error_document ''body must be valid JSON''), log'))
                \<and> (json_loads w bs = Inr j \<and> \<not> is_object j \<longrightarrow>
                     invoke w c log =
                       (Inl (Exn AttributeError
                          ([CHR 0x27] @ type_name j @ [CHR 0x27]
                           @ '' object has no attribute '' @ [CHR 0x27] @ ''update''
                           @ [CHR 0x27])), log'))))"
    if r: "resolve w p log = (Inr tok, log')" and c: "c = Graph_api_call ep meth tt pid f ps b"
  proof -
    have p': "principal_of (Graph_api_call ep meth tt pid f ps b) = Some p"
      using assms unfolding c .
    show ?thesis
      unfolding c by (rule raw_call_checks [OF p' r])
  qed
  from cred one own debug raw show ?thesis
    by blast
qed

theorem errors_at_the_operation_boundary_witness:
  "principal_of (Get_page_subscriptions ''999'') = Some (Page ''999'')
   \<and> resolve bare_world (Page ''999'') [] =
       (Inl (exchange_error ''999'' ''META_SYSTEM_USER_TOKEN env var is not set''), [])
   \<and> invoke bare_world (Get_page_subscriptions ''999'') [] =
       (Inl (exchange_error ''999'' ''META_SYSTEM_USER_TOKEN env var is not set''), [])
   \<and> resolve flaky_world (Page ''999'') [] = (Inr (JStr ''XT''), [exchange_request ''999'' ''UT''])
   \<and> snd (invoke flaky_world (Get_page_subscriptions ''999'') []) =
       [exchange_request ''999'' ''UT'']
         @ [get_request (''999'' @ ''/subscribed_apps'') [] (JStr ''XT'')]
   \<and> http flaky_world [exchange_request ''999'' ''UT'']
         (get_request (''999'' @ ''/subscribed_apps'') [] (JStr ''XT''))
       = Failure ''connection refused''
   \<and> fst (invoke flaky_world (Get_page_subscriptions ''999'') []) =
       Inl (Exn TransportError ''connection refused'')
   \<and> principal_of (Debug_token ''user'') = Some User
   \<and> resolve demo_world User [] = (Inr (JStr ''UT''), [])
   \<and> app_token demo_world = Inl (Exn ValueError ''META_APP_ID and META_APP_SECRET env vars are not set'')
   \<and> user_token demo_world = Inr ''UT''
   \<and> snd (invoke demo_world (Debug_token ''user'') []) =
       [] @ [get_request ''debug_token'' [(JStr ''input_token'', JStr ''UT'')] (JStr ''UT'')]
   \<and> principal_of (Graph_api_call ''me'' ''PATCH'' ''user'' None None None None) = Some User
   \<and> resolve down_world User [] = (Inr (JStr ''UT''), [])
   \<and> merged_extra down_world None None = Some []
   \<and> invoke down_world (Graph_api_call ''me'' ''PATCH'' ''user'' None None None None) [] =
       (Inr (error_document ''Unsupported method: PATCH. Use GET, POST, or DELETE.''), [])
   \<and> principal_of (Get_page_subscriptions ''123'') = Some (Page ''123'')
   \<and> resolve garbled_world (Page ''123'') [] = (Inr (JStr ''PT''), [])
   \<and> snd (invoke garbled_world (Get_page_subscriptions ''123'') []) =
       [] @ [get_request (''123'' @ ''/subscribed_apps'') [] (JStr ''PT'')]
   \<and> http garbled_world [] (get_request (''123'' @ ''/subscribed_apps'') [] (JStr ''PT''))
       = Reply garbled_reply
   \<and> json_loads garbled_world (body_text garbled_reply) =
       Inl ''Expecting value: line 1 column 1 (char 0)''
   \<and> fst (invoke garbled_world (Get_page_subscriptions ''123'') []) =
       Inl (Exn JSONDecodeError ''Expecting value: line 1 column 1 (char 0)'')
   \<and> principal_of (Graph_api_call ''me'' ''GET'' ''page'' (Some ''999'') None None None) =
       Some (Page ''999'')
   \<and> snd (invoke flaky_world (Graph_api_call ''me'' ''GET'' ''page'' (Some ''999'') None None None) [])
       = [exchange_request ''999'' ''UT''] @ [get_request ''me'' [] (JStr ''XT'')]
   \<and> http flaky_world [exchange_request ''999'' ''UT''] (get_request ''me'' [] (JStr ''XT''))
       = Failure ''connection refused''
   \<and> fst (invoke flaky_world (Graph_api_call ''me'' ''GET'' ''page'' (Some ''999'') None None None) [])
       = Inl (Exn TransportError ''connection refused'')"
proof -
  have p1: "principal_of (Get_page_subscriptions ''999'') = Some (Page ''999'')"
    and p2: "principal_of (Debug_token ''user'') = Some User"
    and p3: "principal_of (Graph_api_call ''me'' ''PATCH'' ''user'' None None None None) = Some User"
    and p5: "principal_of (Get_page_subscriptions ''123'') = Some (Page ''123'')"
    and p6: "principal_of (Graph_api_call ''me'' ''GET'' ''page'' (Some ''999'') None None None) =
      Some (Page ''999'')"
    by simp_all
  have r1: "resolve bare_world (Page ''999'') [] =
      (Inl (exchange_error ''999'' ''META_SYSTEM_USER_TOKEN env var is not set''), [])"
    by code_simp
  have r2: "resolve flaky_world (Page ''999'') [] =
      (Inr (JStr ''XT''), [exchange_request ''999'' ''UT''])"
    by code_simp
  have s2: "snd (invoke flaky_world (Get_page_subscriptions ''999'') []) =
      [exchange_request ''999'' ''UT'']
        @ [get_request (''999'' @ ''/subscribed_apps'') [] (JStr ''XT'')]"
    by code_simp
  have h2: "http flaky_world [exchange_request ''999'' ''UT'']
        (get_request (''999'' @ ''/subscribed_apps'') [] (JStr ''XT''))
      = Failure ''connection refused''"
    by (simp add: flaky_world_def)
  have r3: "resolve demo_world User [] = (Inr (JStr ''UT''), [])"
    by code_simp
  have a3: "app_token demo_world =
      Inl (Exn ValueError ''META_APP_ID and META_APP_SECRET env vars are not set'')"
    by code_simp
  have u3: "user_token demo_world = Inr ''UT''"
    by code_simp
  have r4: "resolve down_world User [] = (Inr (JStr ''UT''), [])"
    by code_simp
  have m4: "merged_extra down_world None None = Some []"
    by (simp add: merged_extra_def fields_params_def)
  have v4: "upper ''PATCH'' \<noteq> ''GET'' \<and> upper ''PATCH'' \<noteq> ''POST'' \<and> upper ''PATCH'' \<noteq> ''DELETE''"
    by code_simp
  have r5: "resolve garbled_world (Page ''123'') [] = (Inr (JStr ''PT''), [])"
    by code_simp
  have s5: "snd (invoke garbled_world (Get_page_subscriptions ''123'') []) =
      [] @ [get_request (''123'' @ ''/subscribed_apps'') [] (JStr ''PT'')]"
    by code_simp
  have h5: "http garbled_world [] (get_request (''123'' @ ''/subscribed_apps'') [] (JStr ''PT''))
      = Reply garbled_reply"
    by (simp add: garbled_world_def)
  have j5: "json_loads garbled_world (body_text garbled_reply) =
      Inl ''Expecting value: line 1 column 1 (char 0)''"
    by code_simp
  have s6: "snd (invoke flaky_world
        (Graph_api_call ''me'' ''GET'' ''page'' (Some ''999'') None None None) [])
      = [exchange_request ''999'' ''UT''] @ [get_request ''me'' [] (JStr ''XT'')]"
    by code_simp
  have h6: "http flaky_world [exchange_request ''999'' ''UT''] (get_request ''me'' [] (JStr ''XT''))
      = Failure ''connection refused''"
    by (simp add: flaky_world_def)
  have c1: "invoke bare_world (Get_page_subscriptions ''999'') [] =
      (Inl (exchange_error ''999'' ''META_SYSTEM_USER_TOKEN env var is not set''), [])"
    by (rule errors_at_the_operation_boundary [OF p1, THEN conjunct1, THEN mp, OF r1])
  have c2: "fst (invoke flaky_world (Get_page_subscriptions ''999'') []) =
      Inl (Exn TransportError ''connection refused'')"
    by (rule errors_at_the_operation_boundary [OF p1, THEN conjunct2, THEN mp, OF r2,
          THEN conjunct2, THEN conjunct1, THEN mp, OF s2, THEN conjunct1, THEN mp, OF h2])
  have c3: "snd (invoke demo_world (Debug_token ''user'') []) =
      [] @ [get_request ''debug_token'' [(JStr ''input_token'', JStr ''UT'')] (JStr ''UT'')]"
    by (rule errors_at_the_operation_boundary [OF p2, THEN conjunct2, THEN mp, OF r3,
          THEN conjunct2, THEN conjunct2, THEN conjunct1, THEN mp, OF refl,
          THEN conjunct2, THEN mp, OF a3, THEN conjunct1, THEN mp, OF u3])
  have c4: "invoke down_world (Graph_api_call ''me'' ''PATCH'' ''user'' None None None None) [] =
      (Inr (error_document (''Unsupported method: '' @ ''PATCH'' @ ''. Use GET, POST, or DELETE.'')), [])"
    by (rule errors_at_the_operation_boundary [OF p3, THEN conjunct2, THEN mp, OF r4,
          THEN conjunct2, THEN conjunct2, THEN conjunct2, THEN mp, OF refl,
          THEN conjunct2, THEN mp, OF m4, THEN conjunct1, THEN mp, OF v4])
  have c5: "fst (invoke garbled_world (Get_page_subscriptions ''123'') []) =
      Inl (Exn JSONDecodeError ''Expecting value: line 1 column 1 (char 0)'')"
    by (rule errors_at_the_operation_boundary [OF p5, THEN conjunct2, THEN mp, OF r5,
          THEN conjunct2, THEN conjunct1, THEN mp, OF s5, THEN conjunct2, THEN mp,
          OF conjI [OF h5 j5]])
  have c6: "fst (invoke flaky_world
        (Graph_api_call ''me'' ''GET'' ''page'' (Some ''999'') None None None) [])
      = Inl (Exn TransportError ''connection refused'')"
    by (rule errors_at_the_operation_boundary [OF p6, THEN conjunct2, THEN mp, OF r2,
          THEN conjunct2, THEN conjunct1, THEN mp, OF s6, THEN conjunct1, THEN mp, OF h6])
  show ?thesis
    using p1 p2 p3 p5 p6 r1 r2 s2 h2 r3 a3 u3 r4 m4 r5 s5 h5 j5 s6 h6 c1 c2 c3 c4 c5 c6
    by simp
qed

text \<open>
  Claim C1 as stated fails already for the first operation of the source: with no user
  credential configured, listing the pages raises the ValueError of \<open>_user_token\<close>; no
  \<open>{error: message}\<close> document is returned.
\<close>

theorem uncaught_configuration_error_counterexample:
  "meta_list_pages bare_world [] =
     (Inl (Exn ValueError ''META_SYSTEM_USER_TOKEN env var is not set''), [])"
  by code_simp

section \<open>The credential of the raw call\<close>

lemma issued_request_outcome: "issued (request_outcome w lg req k) lg = [req]"
  by (simp add: issued_def request_outcome_def)

lemma issued_nothing: "issued (x, lg) lg = []"
  by (simp add: issued_def)

lemma access_token_get: "access_token_param (get_request ep ps tok) = Some tok"
  by (simp add: access_token_param_def sent_params_def get_request_def dict_get_set_same)

lemma access_token_post: "access_token_param (post_request ep ps tok) = Some tok"
  by (simp add: access_token_param_def sent_params_def post_request_def dict_get_set_same)

lemma access_token_delete: "access_token_param (delete_request ep tok) = Some tok"
  by (simp add: access_token_param_def sent_params_def delete_request_def)

lemmas access_token_request = access_token_get access_token_post access_token_delete

lemma dispatch_issued_tokens:
  "list_all (\<lambda>req. access_token_param req = Some tok)
     (issued (graph_api_dispatch w ep m b extra tok lg) lg)"
  by (simp add: dispatch_run issued_request_outcome issued_nothing access_token_request
      split: option.splits sum.splits json.splits)

lemma dispatch_issued_length:
  "length (issued (graph_api_dispatch w ep m b extra tok lg) lg) \<le> Suc 0"
  by (simp add: dispatch_run issued_request_outcome issued_nothing
      split: option.splits sum.splits json.splits)

lemma params_issued:
  "list_all (\<lambda>req. access_token_param req = Some tok)
     (issued (graph_api_params w ep m f ps b tok lg) lg)
   \<and> length (issued (graph_api_params w ep m f ps b tok lg) lg) \<le> 1"
  by (simp add: params_run dispatch_issued_tokens dispatch_issued_length issued_nothing
      split: option.splits sum.splits)

lemma dispatch_requests:
  "(upper m = ''GET'' \<longrightarrow>
      issued (graph_api_dispatch w ep m b extra tok lg) lg = [get_request ep extra tok])
   \<and> (upper m = ''DELETE'' \<longrightarrow>
        issued (graph_api_dispatch w ep m b extra tok lg) lg = [delete_request ep tok])
   \<and> (upper m = ''POST'' \<longrightarrow>
        (\<not> supplied b \<longrightarrow>
           issued (graph_api_dispatch w ep m b extra tok lg) lg =
             [post_request ep (dict_merge [] extra) tok])
        \<and> (b = Some bs \<and> bs \<noteq> [] \<and> json_loads w bs = Inr (JObj kvs) \<longrightarrow>
             issued (graph_api_dispatch w ep m b extra tok lg) lg =
               [post_request ep (dict_merge (dict_of_obj kvs) extra) tok]))"
proof -
  have neq: "''DELETE'' \<noteq> ''GET''" "''DELETE'' \<noteq> ''POST''" "''POST'' \<noteq> ''GET''"
    by simp_all
  show ?thesis
    by (cases b)
       (auto simp: dispatch_run issued_request_outcome dict_of_obj_def)
qed

text \<open>
  Claim C10. Every selector other than \<open>"page"\<close> and \<open>"app"\<close>, a misspelling as much
  as \<open>"user"\<close>, makes the raw call resolve and use the user credential; no selector is
  reported as unknown. The call is the call with \<open>"user"\<close>. When the user credential is
  missing it ends with that resolution's own error and issues nothing. Otherwise it
  issues at most one request, and every request it issues carries the user token as its
  \<open>access_token\<close>; when the parameters merge, the request is the GET request of the
  endpoint with the merged parameters and the user token, the DELETE request of the
  endpoint with the user token, or the POST request of the endpoint with the decoded
  body, the merged parameters and the user token.
\<close>

theorem other_selectors_use_user_token:
  assumes "token_type \<noteq> ''page''" and "token_type \<noteq> ''app''"
  shows
    "meta_graph_api_call w endpoint method token_type page_id fields_arg params body log =
       meta_graph_api_call w endpoint method ''user'' page_id fields_arg params body log
     \<and> (user_token w = Inl e \<longrightarrow>
          meta_graph_api_call w endpoint method token_type page_id fields_arg params body log
            = (Inl e, log))
     \<and> (user_token w = Inr t \<longrightarrow>
          list_all (\<lambda>req. access_token_param req = Some (JStr t))
            (issued (meta_graph_api_call w endpoint method token_type page_id fields_arg params
               body log) log)
          \<and> length (issued (meta_graph_api_call w endpoint method token_type page_id fields_arg
               params body log) log) \<le> 1
          \<and> (merged_extra w fields_arg params = Some extra \<longrightarrow>
               (upper method = ''GET'' \<longrightarrow>
                  issued (meta_graph_api_call w endpoint method token_type page_id fields_arg
                    params body log) log = [get_request endpoint extra (JStr t)])
               \<and> (upper method = ''DELETE'' \<longrightarrow>
                    issued (meta_graph_api_call w endpoint method token_type page_id fields_arg
                      params body log) log = [delete_request endpoint (JStr t)])
               \<and> (upper method = ''POST'' \<longrightarrow>
                    (\<not> supplied body \<longrightarrow>
                       issued (meta_graph_api_call w endpoint method token_type page_id
                         fields_arg params body log) log =
                         [post_request endpoint (dict_merge [] extra) (JStr t)])
                    \<and> (body = Some bs \<and> bs \<noteq> [] \<and> json_loads w bs = Inr (JObj kvs) \<longrightarrow>
                         issued (meta_graph_api_call w endpoint method token_type page_id
                           fields_arg params body log) log =
                           [post_request endpoint (dict_merge (dict_of_obj kvs) extra)
                              (JStr t)]))))"
proof -
  have same: "meta_graph_api_call w endpoint method token_type page_id fields_arg params body log =
      meta_graph_api_call w endpoint method ''user'' page_id fields_arg params body log"
    using assms by (simp add: meta_graph_api_call_def)
  have missing: "meta_graph_api_call w endpoint method token_type page_id fields_arg params body log
      = (Inl e, log)" if "user_token w = Inl e"
    using assms that by (simp add: meta_graph_api_call_def io_bind_lift_Inl)
  have run: "meta_graph_api_call w endpoint method token_type page_id fields_arg params body log
      = graph_api_params w endpoint method fields_arg params body (JStr t) log"
    if "user_token w = Inr t"
    using assms that by (simp add: meta_graph_api_call_def io_bind_lift_Inr)
  have pinned: "meta_graph_api_call w endpoint method token_type page_id fields_arg params body log
      = graph_api_dispatch w endpoint method body extra (JStr t) log"
    if "user_token w = Inr t" and "merged_extra w fields_arg params = Some extra"
    using that by (simp add: run params_merged)
  have tokens: "list_all (\<lambda>req. access_token_param req = Some (JStr t))
        (issued (meta_graph_api_call w endpoint method token_type page_id fields_arg params
           body log) log)
      \<and> length (issued (meta_graph_api_call w endpoint method token_type page_id fields_arg
           params body log) log) \<le> 1"
    if u: "user_token w = Inr t"
    unfolding run [OF u] by (rule params_issued)
  have reqs: "(upper method = ''GET'' \<longrightarrow>
        issued (meta_graph_api_call w endpoint method token_type page_id fields_arg
          params body log) log = [get_request endpoint extra (JStr t)])
      \<and> (upper method = ''DELETE'' \<longrightarrow>
           issued (meta_graph_api_call w endpoint method token_type page_id fields_arg
             params body log) log = [delete_request endpoint (JStr t)])
      \<and> (upper method = ''POST'' \<longrightarrow>
           (\<not> supplied body \<longrightarrow>
              issued (meta_graph_api_call w endpoint method token_type page_id
                fields_arg params body log) log =
                [post_request endpoint (dict_merge [] extra) (JStr t)])
           \<and> (body = Some bs \<and> bs \<noteq> [] \<and> json_loads w bs = Inr (JObj kvs) \<longrightarrow>
                issued (meta_graph_api_call w endpoint method token_type page_id
                  fields_arg params body log) log =
                  [post_request endpoint (dict_merge (dict_of_obj kvs) extra) (JStr t)]))"
    if u: "user_token w = Inr t" and m: "merged_extra w fields_arg params = Some extra"
    unfolding pinned [OF u m] by (rule dispatch_requests)
  from same missing tokens reqs show ?thesis
    by blast
qed

theorem other_selectors_use_user_token_witness:
  "''usr'' \<noteq> ''page'' \<and> ''usr'' \<noteq> ''app''
   \<and> meta_graph_api_call demo_world ''me'' ''GET'' ''usr'' None None None None [] =
       meta_graph_api_call demo_world ''me'' ''GET'' ''user'' None None None None []
   \<and> user_token demo_world = Inr ''UT''
   \<and> merged_extra demo_world None None = Some []
   \<and> upper ''GET'' = ''GET''
   \<and> issued (meta_graph_api_call demo_world ''me'' ''GET'' ''usr'' None None None None []) [] =
       [get_request ''me'' [] (JStr ''UT'')]
   \<and> get_request ''me'' [] (JStr ''UT'') =
       Get ''https://graph.facebook.com/v22.0/me'' [(JStr ''access_token'', JStr ''UT'')]
   \<and> list_all (\<lambda>req. access_token_param req = Some (JStr ''UT''))
         (issued (meta_graph_api_call demo_world ''me'' ''GET'' ''usr'' None None None None []) [])"
proof -
  have n1: "''usr'' \<noteq> ''page''" and n2: "''usr'' \<noteq> ''app''"
    by simp_all
  have u: "user_token demo_world = Inr ''UT''"
    by code_simp
  have m: "merged_extra demo_world None None = Some []"
    by (simp add: merged_extra_def fields_params_def)
  have g: "upper ''GET'' = ''GET''"
    by code_simp
  have r: "get_request ''me'' [] (JStr ''UT'') =
      Get ''https://graph.facebook.com/v22.0/me'' [(JStr ''access_token'', JStr ''UT'')]"
    by (simp add: get_request_def GRAPH_API_BASE_def)
  have c1: "meta_graph_api_call demo_world ''me'' ''GET'' ''usr'' None None None None [] =
      meta_graph_api_call demo_world ''me'' ''GET'' ''user'' None None None None []"
    by (rule other_selectors_use_user_token [OF n1 n2, THEN conjunct1])
  have c2: "list_all (\<lambda>req. access_token_param req = Some (JStr ''UT''))
      (issued (meta_graph_api_call demo_world ''me'' ''GET'' ''usr'' None None None None []) [])"
    by (rule other_selectors_use_user_token [OF n1 n2, THEN conjunct2, THEN conjunct2,
          THEN mp, OF u, THEN conjunct1])
  have c3: "issued (meta_graph_api_call demo_world ''me'' ''GET'' ''usr'' None None None None []) []
      = [get_request ''me'' [] (JStr ''UT'')]"
    by (rule other_selectors_use_user_token [OF n1 n2, THEN conjunct2, THEN conjunct2,
          THEN mp, OF u, THEN conjunct2, THEN conjunct2, THEN mp, OF m, THEN conjunct1,
          THEN mp, OF g])
  show ?thesis
    using n1 n2 u m g r c1 c2 c3 by (intro conjI)
qed

end
